theory Spec2Isabelle
  imports Main
begin

text \<open>
  A shallow embedding of the query path of the GigAPI querier: the time-range extractor,
  the partition resolver and its recursive fallback, and \<open>query\<close> of \<open>QueryClient\<close>
  (two versions of the class are in the source; where they differ the later one is
  modelled and the earlier one is named as such), and the normalization of rows and the
  directory walk of the debug endpoint of \<open>QueryServer.js\<close>.
\<close>

section \<open>JavaScript values used by the resolver\<close>

text \<open>
  A JavaScript number is modelled as a mathematical integer or \<open>NaN\<close> (the time value of
  an invalid \<open>Date\<close>); \<open>null\<close> is \<open>None\<close> of \<open>jsnum option\<close>.  The relational
  operators follow the language: every comparison with \<open>NaN\<close> is false.
\<close>

datatype jsnum = NaN | Num int

fun js_lt :: "jsnum \<Rightarrow> jsnum \<Rightarrow> bool" where
  "js_lt (Num a) (Num b) = (a < b)"
| "js_lt _ _ = False"

fun js_le :: "jsnum \<Rightarrow> jsnum \<Rightarrow> bool" where
  "js_le (Num a) (Num b) = (a \<le> b)"
| "js_le _ _ = False"

definition js_gt :: "jsnum \<Rightarrow> jsnum \<Rightarrow> bool" where
  "js_gt a b = js_lt b a"

definition js_ge :: "jsnum \<Rightarrow> jsnum \<Rightarrow> bool" where
  "js_ge a b = js_le b a"

text \<open>Strict equality \<open>===\<close> on numbers.\<close>

fun js_eq :: "jsnum \<Rightarrow> jsnum \<Rightarrow> bool" where
  "js_eq (Num a) (Num b) = (a = b)"
| "js_eq _ _ = False"

text \<open>Truthiness of a number-or-null: \<open>null\<close>, \<open>0\<close> and \<open>NaN\<close> are falsy.\<close>

fun truthy :: "jsnum option \<Rightarrow> bool" where
  "truthy None = False"
| "truthy (Some NaN) = False"
| "truthy (Some (Num n)) = (n \<noteq> 0)"

text \<open>
  A number of the platform is a double, and the integers a double holds are those of at
  most 53 significant bits.  \<open>nearestDouble n\<close> is the double that stands for the integer
  \<open>n\<close> where the platform reads a number from JSON text or rounds the exact result of an
  operation: \<open>n\<close> itself below \<open>2^53\<close>, and beyond it the nearest integer of 53
  significant bits, a tie going to the one with an even significand.  (Past the largest
  finite double the platform has \<open>Infinity\<close>; against the finite bounds of a query it
  compares as the rounded integer does.)
\<close>

function log2floor :: "int \<Rightarrow> nat" where
  "log2floor n = (if n < 2 then 0 else Suc (log2floor (n div 2)))"
  by pat_completeness auto

termination
  by (relation "measure nat") auto

declare log2floor.simps [simp del]

text \<open>The integer nearest to \<open>num / den\<close>, a tie going to the even one.\<close>

definition roundHalfEven :: "int \<Rightarrow> int \<Rightarrow> int" where
  "roundHalfEven num den =
     (let q = num div den; r = num mod den
      in if den < 2 * r \<or> (2 * r = den \<and> odd q) then q + 1 else q)"

definition nearestDouble :: "int \<Rightarrow> int" where
  "nearestDouble n =
     (let a = \<bar>n\<bar>; k = log2floor a - 52
      in sgn n * (roundHalfEven a (2 ^ k) * 2 ^ k))"

text \<open>
  The double \<open>a / 1000000\<close> with its fraction dropped, for \<open>a\<close> not negative: the
  quotient is rounded to 53 significant bits first.
\<close>

definition truncatedMs :: "int \<Rightarrow> int" where
  "truncatedMs a =
     (if a < 1000000 then 0
      else (let e = log2floor (a div 1000000)
            in if e \<le> 52 then roundHalfEven (a * 2 ^ (52 - e)) 1000000 div 2 ^ (52 - e)
               else roundHalfEven a (1000000 * 2 ^ (e - 52)) * 2 ^ (e - 52)))"

section \<open>Partition manifests and the file system\<close>

text \<open>
  A \<open>metadata.json\<close> document that conforms to the manifest schema: \<open>min_time\<close>,
  \<open>max_time\<close> and \<open>files\<close>, each file with \<open>path\<close>, \<open>min_time\<close>, \<open>max_time\<close>.  As the
  content of a file the numbers are those written in its text; \<open>jsonParse\<close> is the
  object that \<open>JSON.parse\<close> makes of it, every number read as the nearest double.
\<close>

record file_entry =
  path :: string
  file_min_time :: int
  file_max_time :: int

record manifest =
  min_time :: int
  max_time :: int
  files :: "file_entry list"

definition parseEntry :: "file_entry \<Rightarrow> file_entry" where
  "parseEntry file =
     \<lparr>path = path file, file_min_time = nearestDouble (file_min_time file),
      file_max_time = nearestDouble (file_max_time file)\<rparr>"

definition jsonParse :: "manifest \<Rightarrow> manifest" where
  "jsonParse document =
     \<lparr>min_time = nearestDouble (min_time document),
      max_time = nearestDouble (max_time document),
      files = map parseEntry (files document)\<rparr>"

text \<open>
  The content of a regular file: the text of a manifest, or anything else (\<open>Opaque\<close>),
  on which \<open>JSON.parse(await fs.promises.readFile(p, 'utf8'))\<close> throws.
\<close>

datatype content = Json manifest | Opaque

text \<open>
  A file-system object: a regular file, a directory with its named entries in
  \<open>readdir\<close> order, or a directory whose listing fails (\<open>Locked\<close>).
\<close>

datatype fsobj = File content | Dir "(string \<times> fsobj) list" | Locked

text \<open>
  The platform around the resolver: the data directory of the client, the object the
  file system holds at a path (\<open>None\<close>: nothing there), \<open>fs.existsSync\<close>, \<open>path.join\<close>,
  \<open>path.basename\<close>, \<open>path.relative\<close>, and the \<open>Date\<close> built-ins.
\<close>

record jsdate =
  getFullYear :: jsnum
  getMonth :: jsnum
  getDate :: jsnum
  getHours :: jsnum

record sys =
  dataDir :: string
  lookup :: "string \<Rightarrow> fsobj option"
  existsSync :: "string \<Rightarrow> bool"
  join :: "string \<Rightarrow> string \<Rightarrow> string"
  basename :: "string \<Rightarrow> string"
  relative :: "string \<Rightarrow> string \<Rightarrow> string"
  newDateStr :: "string \<Rightarrow> jsdate"
  newDateNum :: "jsnum \<Rightarrow> jsdate"
  dateOnly :: "jsdate \<Rightarrow> jsnum"
  parseMs :: "string \<Rightarrow> jsnum"
  now :: int

text \<open>\<open>fs.promises.readdir(p)\<close>: the entry names, or an exception (\<open>None\<close>).\<close>

definition readdir :: "sys \<Rightarrow> string \<Rightarrow> string list option" where
  "readdir env p = (case lookup env p of Some (Dir es) \<Rightarrow> Some (map fst es) | _ \<Rightarrow> None)"

text \<open>\<open>JSON.parse(await fs.promises.readFile(p, 'utf8'))\<close>, \<open>None\<close> when it throws.\<close>

definition readMetadata :: "sys \<Rightarrow> string \<Rightarrow> manifest option" where
  "readMetadata env p =
     (case lookup env p of Some (File (Json document)) \<Rightarrow> Some (jsonParse document)
      | _ \<Rightarrow> None)"

section \<open>The Hive-structure resolver: one hour partition\<close>

text \<open>
  The loop over \<open>metadata.files\<close> of \<open>_findFilesByHiveStructure\<close>: a file passes the time
  test when a bound is \<open>null\<close> or its interval meets the query interval, and is pushed
  under its recorded path, or else under the partition directory joined with its base
  name, whichever exists.  The same loop serves \<open>_findMetadataFilesRecursively\<close>.
\<close>

fun pushFiles ::
  "sys \<Rightarrow> string \<Rightarrow> jsnum option \<Rightarrow> jsnum option \<Rightarrow> file_entry list \<Rightarrow> string list \<Rightarrow> string list"
where
  "pushFiles env dirPath startNs endNs [] relevantFiles = relevantFiles"
| "pushFiles env dirPath startNs endNs (file # rest) relevantFiles =
     pushFiles env dirPath startNs endNs rest
       (if startNs = None \<or> endNs = None \<or>
           (js_ge (Num (file_max_time file)) (the startNs) \<and>
            js_le (Num (file_min_time file)) (the endNs))
        then (if existsSync env (path file) then relevantFiles @ [path file]
              else (let localPath = join env dirPath (basename env (path file))
                    in if existsSync env localPath then relevantFiles @ [localPath]
                       else relevantFiles))
        else relevantFiles)"

text \<open>
  The body of the loop over \<open>hourDirs\<close>: no manifest, the partition is skipped; a
  manifest that cannot be read is logged and skipped; a manifest whose interval misses
  the query interval is skipped; otherwise its files are pushed.
\<close>

definition hiveHour ::
  "sys \<Rightarrow> string \<Rightarrow> jsnum option \<Rightarrow> jsnum option \<Rightarrow> string list \<Rightarrow> string list"
where
  "hiveHour env hourPath startNs endNs relevantFiles =
     (let metadataPath = join env hourPath ''metadata.json'' in
      if \<not> existsSync env metadataPath then relevantFiles
      else (case readMetadata env metadataPath of
              None \<Rightarrow> relevantFiles
            | Some metadata \<Rightarrow>
                if startNs \<noteq> None \<and> endNs \<noteq> None \<and>
                   (js_lt (Num (max_time metadata)) (the startNs) \<or>
                    js_gt (Num (min_time metadata)) (the endNs))
                then relevantFiles
                else pushFiles env hourPath startNs endNs (files metadata) relevantFiles))"

section \<open>Strings\<close>

text \<open>
  Strings are lists of code units; the model covers ASCII text.  \<open>replaceFirst\<close> is
  \<open>String.prototype.replace\<close> with a string pattern: the first occurrence only.
\<close>

definition startsWith :: "string \<Rightarrow> string \<Rightarrow> bool" where
  "startsWith s p = (take (length p) s = p)"

definition endsWith :: "string \<Rightarrow> string \<Rightarrow> bool" where
  "endsWith s p = (length p \<le> length s \<and> drop (length s - length p) s = p)"

fun replaceFirst :: "string \<Rightarrow> string \<Rightarrow> string \<Rightarrow> string" where
  "replaceFirst [] pat rep = (if pat = [] then rep else [])"
| "replaceFirst (c # cs) pat rep =
     (if startsWith (c # cs) pat then rep @ drop (length pat) (c # cs)
      else c # replaceFirst cs pat rep)"

definition isSpace :: "char \<Rightarrow> bool" where
  "isSpace c = (c \<in> set [CHR '' '', CHR 0x09, CHR 0x0A, CHR 0x0B, CHR 0x0C, CHR 0x0D])"

definition digitVal :: "char \<Rightarrow> nat option" where
  "digitVal c =
     map_of [(CHR ''0'', 0), (CHR ''1'', 1), (CHR ''2'', 2), (CHR ''3'', 3), (CHR ''4'', 4),
             (CHR ''5'', 5), (CHR ''6'', 6), (CHR ''7'', 7), (CHR ''8'', 8), (CHR ''9'', 9),
             (CHR ''a'', 10), (CHR ''b'', 11), (CHR ''c'', 12), (CHR ''d'', 13),
             (CHR ''e'', 14), (CHR ''f'', 15), (CHR ''A'', 10), (CHR ''B'', 11),
             (CHR ''C'', 12), (CHR ''D'', 13), (CHR ''E'', 14), (CHR ''F'', 15)] c"

definition isRadixDigit :: "nat \<Rightarrow> char \<Rightarrow> bool" where
  "isRadixDigit radix c = (case digitVal c of None \<Rightarrow> False | Some v \<Rightarrow> v < radix)"

fun digitsValue :: "nat \<Rightarrow> string \<Rightarrow> nat \<Rightarrow> nat" where
  "digitsValue radix [] acc = acc"
| "digitsValue radix (c # cs) acc =
     digitsValue radix cs (acc * radix + (case digitVal c of None \<Rightarrow> 0 | Some v \<Rightarrow> v))"

text \<open>
  \<open>parseInt(s)\<close> without a radix: leading white space and a sign are skipped, a
  \<open>0x\<close> prefix selects radix 16, the longest run of digits is read, and no digit at
  all gives \<open>NaN\<close>.
\<close>

definition parseInt :: "string \<Rightarrow> jsnum" where
  "parseInt s =
     (let s1 = dropWhile isSpace s;
          neg = (s1 \<noteq> [] \<and> hd s1 = CHR ''-'');
          s2 = (if s1 \<noteq> [] \<and> (hd s1 = CHR ''-'' \<or> hd s1 = CHR ''+'') then tl s1 else s1);
          hex = (startsWith s2 ''0x'' \<or> startsWith s2 ''0X'');
          radix = (if hex then 16 else 10);
          s3 = (if hex then drop 2 s2 else s2);
          ds = takeWhile (isRadixDigit radix) s3
      in if ds = [] then NaN
         else Num ((if neg then - 1 else 1) * int (digitsValue radix ds 0)))"

section \<open>Date and hour directories\<close>

datatype error = FsError | InvalidQuery | NotInitialized | RewriteError | EngineError string

definition join3 :: "sys \<Rightarrow> string \<Rightarrow> string \<Rightarrow> string \<Rightarrow> string" where
  "join3 env a b c = join env (join env a b) c"

text \<open>
  \<open>_getDateDirectoriesInRange\<close>: the \<open>date=\<close> entries of the measurement directory
  whose calendar date lies between the calendar dates of start and end.  A failing
  \<open>readdir\<close> is not caught here.
\<close>

definition getDateDirectoriesInRange ::
  "sys \<Rightarrow> string \<Rightarrow> string \<Rightarrow> jsdate \<Rightarrow> jsdate \<Rightarrow> error + string list"
where
  "getDateDirectoriesInRange env dbName measurement startDate endDate =
     (let basePath = join3 env (dataDir env) dbName measurement in
      if \<not> existsSync env basePath then Inr []
      else (case readdir env basePath of
              None \<Rightarrow> Inl FsError
            | Some allDirs \<Rightarrow>
                (let dateDirs = filter (\<lambda>dir. startsWith dir ''date='') allDirs
                 in Inr (filter (\<lambda>dateDir.
                      let dateStr = replaceFirst dateDir ''date='' [];
                          dirDate = newDateStr env dateStr;
                          dirDateOnly = dateOnly env dirDate;
                          startDateOnly = dateOnly env startDate;
                          endDateOnly = dateOnly env endDate
                      in js_ge dirDateOnly startDateOnly \<and> js_le dirDateOnly endDateOnly)
                    dateDirs))))"

definition sameDay :: "jsdate \<Rightarrow> jsdate \<Rightarrow> bool" where
  "sameDay d dirDate =
     (js_eq (getFullYear d) (getFullYear dirDate) \<and>
      js_eq (getMonth d) (getMonth dirDate) \<and>
      js_eq (getDate d) (getDate dirDate))"

definition hourOf :: "string \<Rightarrow> jsnum" where
  "hourOf hourDir = parseInt (replaceFirst hourDir ''hour='' [])"

text \<open>
  \<open>_getHourDirectoriesInRange\<close>: the \<open>hour=\<close> entries of a date directory, filtered by
  hour on the day of the start and on the day of the end.
\<close>

definition getHourDirectoriesInRange ::
  "sys \<Rightarrow> string \<Rightarrow> jsdate \<Rightarrow> jsdate \<Rightarrow> error + string list"
where
  "getHourDirectoriesInRange env datePath startDate endDate =
     (if \<not> existsSync env datePath then Inr []
      else (case readdir env datePath of
              None \<Rightarrow> Inl FsError
            | Some allDirs \<Rightarrow>
                (let hourDirs = filter (\<lambda>dir. startsWith dir ''hour='') allDirs;
                     dateStr = replaceFirst (basename env datePath) ''date='' [];
                     dirDate = newDateStr env dateStr
                 in if sameDay startDate dirDate \<and> sameDay endDate dirDate
                    then Inr (filter (\<lambda>hourDir.
                           let hour = hourOf hourDir
                           in js_ge hour (getHours startDate) \<and> js_le hour (getHours endDate))
                         hourDirs)
                    else if sameDay startDate dirDate
                    then Inr (filter (\<lambda>hourDir. js_ge (hourOf hourDir) (getHours startDate))
                         hourDirs)
                    else if sameDay endDate dirDate
                    then Inr (filter (\<lambda>hourDir. js_le (hourOf hourDir) (getHours endDate))
                         hourDirs)
                    else Inr hourDirs)))"

section \<open>The Hive-structure resolver\<close>

fun hiveHours ::
  "sys \<Rightarrow> string \<Rightarrow> jsnum option \<Rightarrow> jsnum option \<Rightarrow> string list \<Rightarrow> string list \<Rightarrow> string list"
where
  "hiveHours env datePath startNs endNs [] relevantFiles = relevantFiles"
| "hiveHours env datePath startNs endNs (hourDir # rest) relevantFiles =
     hiveHours env datePath startNs endNs rest
       (hiveHour env (join env datePath hourDir) startNs endNs relevantFiles)"

fun hiveDates ::
  "sys \<Rightarrow> string \<Rightarrow> string \<Rightarrow> jsdate \<Rightarrow> jsdate \<Rightarrow> jsnum option \<Rightarrow> jsnum option \<Rightarrow>
   string list \<Rightarrow> string list \<Rightarrow> error + string list"
where
  "hiveDates env dbName measurement startDate endDate startNs endNs [] relevantFiles =
     Inr relevantFiles"
| "hiveDates env dbName measurement startDate endDate startNs endNs (dateDir # rest)
     relevantFiles =
     (let datePath = join env (join3 env (dataDir env) dbName measurement) dateDir in
      case getHourDirectoriesInRange env datePath startDate endDate of
        Inl err \<Rightarrow> Inl err
      | Inr hourDirs \<Rightarrow>
          hiveDates env dbName measurement startDate endDate startNs endNs rest
            (hiveHours env datePath startNs endNs hourDirs relevantFiles))"

text \<open>\<open>_findFilesByHiveStructure\<close>; \<open>Inl\<close> is an exception that leaves the function.\<close>

definition findFilesByHiveStructure ::
  "sys \<Rightarrow> string \<Rightarrow> string \<Rightarrow> jsdate \<Rightarrow> jsdate \<Rightarrow> jsnum option \<Rightarrow> jsnum option \<Rightarrow>
   error + string list"
where
  "findFilesByHiveStructure env dbName measurement startDate endDate startNs endNs =
     (case getDateDirectoriesInRange env dbName measurement startDate endDate of
        Inl err \<Rightarrow> Inl err
      | Inr dateDirectories \<Rightarrow>
          hiveDates env dbName measurement startDate endDate startNs endNs
            dateDirectories [])"

section \<open>The recursive resolvers\<close>

fun isFile :: "fsobj \<Rightarrow> bool" where
  "isFile (File c) = True"
| "isFile _ = False"

fun isDirectory :: "fsobj \<Rightarrow> bool" where
  "isDirectory (File c) = False"
| "isDirectory _ = True"

text \<open>The loop that collects the \<open>.parquet\<close> files of one directory.\<close>

fun pushParquet :: "sys \<Rightarrow> string \<Rightarrow> (string \<times> fsobj) list \<Rightarrow> string list \<Rightarrow> string list" where
  "pushParquet env dirPath [] filesList = filesList"
| "pushParquet env dirPath ((name, x) # rest) filesList =
     pushParquet env dirPath rest
       (if isFile x \<and> endsWith name ''.parquet'' then filesList @ [join env dirPath name]
        else filesList)"

definition findMetadataEntry :: "(string \<times> fsobj) list \<Rightarrow> (string \<times> fsobj) option" where
  "findMetadataEntry entries = find (\<lambda>(name, x). isFile x \<and> name = ''metadata.json'') entries"

text \<open>
  \<open>_findMetadataFilesRecursively\<close> on the object found at \<open>dirPath\<close>.  A listing that
  fails is logged and nothing is added.  A manifest that misses the query interval
  returns at once, before the subdirectories are visited.
\<close>

fun findMetadataFilesRecursively ::
  "sys \<Rightarrow> string \<Rightarrow> fsobj option \<Rightarrow> string list \<Rightarrow> jsnum option \<Rightarrow> jsnum option \<Rightarrow> string list"
and metadataSubdirs ::
  "sys \<Rightarrow> string \<Rightarrow> (string \<times> fsobj) list \<Rightarrow> string list \<Rightarrow> jsnum option \<Rightarrow> jsnum option \<Rightarrow>
   string list"
where
  "findMetadataFilesRecursively env dirPath (Some (Dir entries)) filesList startNs endNs =
     (case findMetadataEntry entries of
        Some (name, File (Json document)) \<Rightarrow>
          if startNs \<noteq> None \<and> endNs \<noteq> None \<and>
             (js_lt (Num (max_time (jsonParse document))) (the startNs) \<or>
              js_gt (Num (min_time (jsonParse document))) (the endNs))
          then filesList
          else metadataSubdirs env dirPath entries
                 (pushFiles env dirPath startNs endNs (files (jsonParse document)) filesList)
                 startNs endNs
      | Some other \<Rightarrow> metadataSubdirs env dirPath entries filesList startNs endNs
      | None \<Rightarrow>
          metadataSubdirs env dirPath entries (pushParquet env dirPath entries filesList)
            startNs endNs)"
| "findMetadataFilesRecursively env dirPath other filesList startNs endNs = filesList"
| "metadataSubdirs env dirPath [] filesList startNs endNs = filesList"
| "metadataSubdirs env dirPath ((name, x) # rest) filesList startNs endNs =
     metadataSubdirs env dirPath rest
       (if isDirectory x
        then findMetadataFilesRecursively env (join env dirPath name) (Some x) filesList
               startNs endNs
        else filesList)
       startNs endNs"

text \<open>The manifest loop of \<open>_findFilesRecursively\<close>: recorded paths that exist.\<close>

fun pushExisting :: "sys \<Rightarrow> file_entry list \<Rightarrow> string list \<Rightarrow> string list" where
  "pushExisting env [] filesList = filesList"
| "pushExisting env (file # rest) filesList =
     pushExisting env rest
       (if existsSync env (path file) then filesList @ [path file] else filesList)"

fun findFilesRecursively :: "sys \<Rightarrow> string \<Rightarrow> fsobj option \<Rightarrow> string list \<Rightarrow> string list"
and allSubdirs :: "sys \<Rightarrow> string \<Rightarrow> (string \<times> fsobj) list \<Rightarrow> string list \<Rightarrow> string list"
where
  "findFilesRecursively env dirPath (Some (Dir entries)) filesList =
     allSubdirs env dirPath entries
       (pushParquet env dirPath entries
          (case findMetadataEntry entries of
             Some (name, File (Json document)) \<Rightarrow>
               pushExisting env (files (jsonParse document)) filesList
           | other \<Rightarrow> filesList))"
| "findFilesRecursively env dirPath other filesList = filesList"
| "allSubdirs env dirPath [] filesList = filesList"
| "allSubdirs env dirPath ((name, x) # rest) filesList =
     allSubdirs env dirPath rest
       (if isDirectory x
        then findFilesRecursively env (join env dirPath name) (Some x) filesList
        else filesList)"

text \<open>
  The two walks under a budget of nested calls: a call made when the budget is used up
  is \<open>None\<close>, and so is every call that waits for it.  Apart from the budget the
  equations are those above; they serve to state that the walks return, and how deep
  their calls nest.
\<close>

fun findMetadataFilesRecursivelyWithin ::
  "nat \<Rightarrow> sys \<Rightarrow> string \<Rightarrow> fsobj option \<Rightarrow> string list \<Rightarrow> jsnum option \<Rightarrow> jsnum option \<Rightarrow>
   string list option"
and metadataSubdirsWithin ::
  "nat \<Rightarrow> sys \<Rightarrow> string \<Rightarrow> (string \<times> fsobj) list \<Rightarrow> string list \<Rightarrow> jsnum option \<Rightarrow>
   jsnum option \<Rightarrow> string list option"
where
  "findMetadataFilesRecursivelyWithin 0 env dirPath obj filesList startNs endNs = None"
| "findMetadataFilesRecursivelyWithin (Suc budget) env dirPath (Some (Dir entries)) filesList
     startNs endNs =
     (case findMetadataEntry entries of
        Some (name, File (Json document)) \<Rightarrow>
          if startNs \<noteq> None \<and> endNs \<noteq> None \<and>
             (js_lt (Num (max_time (jsonParse document))) (the startNs) \<or>
              js_gt (Num (min_time (jsonParse document))) (the endNs))
          then Some filesList
          else metadataSubdirsWithin budget env dirPath entries
                 (pushFiles env dirPath startNs endNs (files (jsonParse document)) filesList)
                 startNs endNs
      | Some other \<Rightarrow> metadataSubdirsWithin budget env dirPath entries filesList startNs endNs
      | None \<Rightarrow>
          metadataSubdirsWithin budget env dirPath entries
            (pushParquet env dirPath entries filesList) startNs endNs)"
| "findMetadataFilesRecursivelyWithin (Suc budget) env dirPath other filesList startNs endNs =
     Some filesList"
| "metadataSubdirsWithin budget env dirPath [] filesList startNs endNs = Some filesList"
| "metadataSubdirsWithin budget env dirPath ((name, x) # rest) filesList startNs endNs =
     (if isDirectory x
      then (case findMetadataFilesRecursivelyWithin budget env (join env dirPath name) (Some x)
                   filesList startNs endNs of
              None \<Rightarrow> None
            | Some found \<Rightarrow> metadataSubdirsWithin budget env dirPath rest found startNs endNs)
      else metadataSubdirsWithin budget env dirPath rest filesList startNs endNs)"

fun findFilesRecursivelyWithin ::
  "nat \<Rightarrow> sys \<Rightarrow> string \<Rightarrow> fsobj option \<Rightarrow> string list \<Rightarrow> string list option"
and allSubdirsWithin ::
  "nat \<Rightarrow> sys \<Rightarrow> string \<Rightarrow> (string \<times> fsobj) list \<Rightarrow> string list \<Rightarrow> string list option"
where
  "findFilesRecursivelyWithin 0 env dirPath obj filesList = None"
| "findFilesRecursivelyWithin (Suc budget) env dirPath (Some (Dir entries)) filesList =
     allSubdirsWithin budget env dirPath entries
       (pushParquet env dirPath entries
          (case findMetadataEntry entries of
             Some (name, File (Json document)) \<Rightarrow>
               pushExisting env (files (jsonParse document)) filesList
           | other \<Rightarrow> filesList))"
| "findFilesRecursivelyWithin (Suc budget) env dirPath other filesList = Some filesList"
| "allSubdirsWithin budget env dirPath [] filesList = Some filesList"
| "allSubdirsWithin budget env dirPath ((name, x) # rest) filesList =
     (if isDirectory x
      then (case findFilesRecursivelyWithin budget env (join env dirPath name) (Some x)
                   filesList of
              None \<Rightarrow> None
            | Some found \<Rightarrow> allSubdirsWithin budget env dirPath rest found)
      else allSubdirsWithin budget env dirPath rest filesList)"

text \<open>\<open>_findAllFiles\<close>.\<close>

definition findAllFiles :: "sys \<Rightarrow> string \<Rightarrow> string \<Rightarrow> string list" where
  "findAllFiles env dbName measurement =
     (let basePath = join3 env (dataDir env) dbName measurement in
      if \<not> existsSync env basePath then []
      else findFilesRecursively env basePath (lookup env basePath) [])"

section \<open>Choosing the resolver\<close>

record timeRange =
  start :: "jsnum option"
  "end" :: "jsnum option"
  timeCondition :: "string option"

text \<open>
  The time value of \<open>new Date(ns / 1000000)\<close>: \<open>null\<close> counts as \<open>0\<close>, and the
  quotient, a double, is truncated towards zero.
\<close>

fun msOfNs :: "jsnum option \<Rightarrow> jsnum" where
  "msOfNs None = Num 0"
| "msOfNs (Some NaN) = NaN"
| "msOfNs (Some (Num n)) = Num (sgn n * truncatedMs \<bar>n\<bar>)"

text \<open>
  \<open>findRelevantFiles\<close>.  An exception of the Hive resolver is caught and logged, and
  the files found so far, none, are returned.
\<close>

definition findRelevantFiles :: "sys \<Rightarrow> string \<Rightarrow> string \<Rightarrow> timeRange \<Rightarrow> string list" where
  "findRelevantFiles env dbName measurement tr =
     (if start tr = None \<and> end tr = None then findAllFiles env dbName measurement
      else
        (let startDate = newDateNum env (msOfNs (start tr));
             endDate = newDateNum env (msOfNs (end tr))
         in case findFilesByHiveStructure env dbName measurement startDate endDate
                   (start tr) (end tr) of
              Inl err \<Rightarrow> []
            | Inr relevantFiles \<Rightarrow>
                if length relevantFiles = 0
                then (let basePath = join3 env (dataDir env) dbName measurement
                      in findMetadataFilesRecursively env basePath (lookup env basePath) []
                           (start tr) (end tr))
                else relevantFiles))"

section \<open>The directory walk of the debug endpoint\<close>

text \<open>
  \<open>findFiles\<close> of the \<open>/debug/:db/:measurement\<close> handler in \<open>QueryServer.js\<close>.  It
  fills two lists, \<open>parquetFiles\<close> and \<open>metadataFiles\<close>; a manifest that cannot be parsed
  is recorded without content.  A subdirectory is entered only while \<open>level < 10\<close>.
\<close>

record parquetInfo =
  pq_path :: string
  pq_name :: string
  pq_relativePath :: string

record metadataInfo =
  md_path :: string
  md_relativePath :: string
  md_content :: "manifest option"

fun findFiles ::
  "sys \<Rightarrow> string \<Rightarrow> string \<Rightarrow> fsobj option \<Rightarrow> nat \<Rightarrow>
   parquetInfo list \<times> metadataInfo list \<Rightarrow> parquetInfo list \<times> metadataInfo list"
and findFilesEntries ::
  "sys \<Rightarrow> string \<Rightarrow> string \<Rightarrow> (string \<times> fsobj) list \<Rightarrow> nat \<Rightarrow>
   parquetInfo list \<times> metadataInfo list \<Rightarrow> parquetInfo list \<times> metadataInfo list"
where
  "findFiles env basePath dirPath (Some (Dir entries)) level found =
     findFilesEntries env basePath dirPath entries level found"
| "findFiles env basePath dirPath other level found = found"
| "findFilesEntries env basePath dirPath [] level found = found"
| "findFilesEntries env basePath dirPath ((name, x) # rest) level found =
     findFilesEntries env basePath dirPath rest level
       (let fullPath = join env dirPath name in
        if isFile x
        then (if endsWith name ''.parquet''
              then (fst found @ [\<lparr>pq_path = fullPath, pq_name = name,
                      pq_relativePath = relative env basePath fullPath\<rparr>], snd found)
              else if name = ''metadata.json''
              then (fst found, snd found @ [\<lparr>md_path = fullPath,
                      md_relativePath = relative env basePath fullPath,
                      md_content = (case x of File (Json document) \<Rightarrow> Some (jsonParse document)
                                    | other \<Rightarrow> None)\<rparr>])
              else found)
        else if isDirectory x \<and> level < 10
        then findFiles env basePath fullPath (Some x) (level + 1) found
        else found)"

section \<open>Regular expressions\<close>

text \<open>
  The regular expressions of the source are values of \<open>re list\<close>, a sequence of items:
  a literal (compared without regard to ASCII case, as under flag \<open>i\<close>, which every
  expression modelled here carries or does not need), a character class repeated at least
  \<open>n\<close> times, greedily or lazily, a group of alternatives that captures under a number
  or does not, \<open>\b\<close>, and \<open>$\<close>.  \<open>matchSeq\<close> lists the ways an expression matches at
  the start of the input, in the order in which a backtracking matcher tries them, so
  that the first is the match the language defines.
\<close>

datatype cclass = Space | NotQuote | WordChar | Digit | AnyChar

definition isWordChar :: "char \<Rightarrow> bool" where
  "isWordChar c =
     (c \<in> set ''abcdefghijklmnopqrstuvwxyzABCDEFGHIJKLMNOPQRSTUVWXYZ0123456789_'')"

fun inClass :: "cclass \<Rightarrow> char \<Rightarrow> bool" where
  "inClass Space c = isSpace c"
| "inClass NotQuote c = (c \<noteq> CHR 0x27)"
| "inClass WordChar c = isWordChar c"
| "inClass Digit c = (c \<in> set ''0123456789'')"
| "inClass AnyChar c = (c \<noteq> CHR 0x0A \<and> c \<noteq> CHR 0x0D)"

definition toUpper :: "char \<Rightarrow> char" where
  "toUpper c =
     (case map_of (zip ''abcdefghijklmnopqrstuvwxyz'' ''ABCDEFGHIJKLMNOPQRSTUVWXYZ'') c of
        None \<Rightarrow> c | Some u \<Rightarrow> u)"

datatype re =
    Lit string
  | Rep cclass nat bool
  | Grp "nat option" "re list list"
  | WordBoundary
  | EndOfInput

text \<open>
  A matcher state: the character before the position (for \<open>\b\<close>), the input from the
  position on, and the captures made so far.
\<close>

record mstate =
  lastChar :: "char option"
  input :: string
  captures :: "(nat \<times> string) list"

definition advance :: "nat \<Rightarrow> mstate \<Rightarrow> mstate" where
  "advance k st =
     st\<lparr>lastChar := (if k = 0 then lastChar st else Some (input st ! (k - 1))),
        input := drop k (input st)\<rparr>"

definition capture :: "nat option \<Rightarrow> mstate \<Rightarrow> mstate \<Rightarrow> mstate" where
  "capture g st0 st1 =
     (case g of None \<Rightarrow> st1
      | Some i \<Rightarrow>
          st1\<lparr>captures :=
                (i, take (length (input st0) - length (input st1)) (input st0)) # captures st1\<rparr>)"

definition wordBefore :: "mstate \<Rightarrow> bool" where
  "wordBefore st = (case lastChar st of None \<Rightarrow> False | Some c \<Rightarrow> isWordChar c)"

definition wordAfter :: "mstate \<Rightarrow> bool" where
  "wordAfter st = (case input st of [] \<Rightarrow> False | c # cs \<Rightarrow> isWordChar c)"

fun matchSeq :: "re list \<Rightarrow> mstate \<Rightarrow> mstate list" where
  "matchSeq [] st = [st]"
| "matchSeq (Lit s # rs) st =
     (if length s \<le> length (input st) \<and>
         map toUpper (take (length s) (input st)) = map toUpper s
      then matchSeq rs (advance (length s) st) else [])"
| "matchSeq (Rep c n greedy # rs) st =
     (let run = length (takeWhile (inClass c) (input st));
          counts = (if greedy then rev [n ..< Suc run] else [n ..< Suc run])
      in concat (map (\<lambda>k. matchSeq rs (advance k st)) counts))"
| "matchSeq (Grp g alts # rs) st =
     concat (map (\<lambda>alt. concat (map (\<lambda>st1. matchSeq rs (capture g st st1)) (matchSeq alt st)))
               alts)"
| "matchSeq (WordBoundary # rs) st =
     (if wordBefore st \<noteq> wordAfter st then matchSeq rs st else [])"
| "matchSeq (EndOfInput # rs) st = (if input st = [] then matchSeq rs st else [])"

text \<open>
  A match as \<open>String.prototype.match\<close> reports it: the text before it, the matched
  text, the text after it, and the captured groups.  \<open>search\<close> tries the positions
  from left to right.
\<close>

record rmatch =
  matchBefore :: string
  matchText :: string
  matchAfter :: string
  matchGroups :: "(nat \<times> string) list"

fun search :: "re list \<Rightarrow> string \<Rightarrow> char option \<Rightarrow> string \<Rightarrow> rmatch option" where
  "search r skipped p [] =
     (case matchSeq r \<lparr>lastChar = p, input = [], captures = []\<rparr> of
        [] \<Rightarrow> None
      | st # others \<Rightarrow>
          Some \<lparr>matchBefore = skipped, matchText = [], matchAfter = [],
                matchGroups = captures st\<rparr>)"
| "search r skipped p (c # cs) =
     (case matchSeq r \<lparr>lastChar = p, input = c # cs, captures = []\<rparr> of
        [] \<Rightarrow> search r (skipped @ [c]) (Some c) cs
      | st # others \<Rightarrow>
          Some \<lparr>matchBefore = skipped,
                matchText = take (length (c # cs) - length (input st)) (c # cs),
                matchAfter = input st, matchGroups = captures st\<rparr>)"

definition exec :: "re list \<Rightarrow> string \<Rightarrow> rmatch option" where
  "exec r s = search r [] None s"

text \<open>A captured group inside a template literal; one that took no part prints as \<open>undefined\<close>.\<close>

definition group :: "rmatch \<Rightarrow> nat \<Rightarrow> string" where
  "group m i = (case map_of (matchGroups m) i of None \<Rightarrow> ''undefined'' | Some s \<Rightarrow> s)"

section \<open>The time-range extractor\<close>

definition quote :: string where
  "quote = [CHR 0x27]"

definition spaces :: re where
  "spaces = Rep Space 1 True"

definition optSpaces :: re where
  "optSpaces = Rep Space 0 True"

definition quoted :: "nat \<Rightarrow> re list" where
  "quoted i = [Lit quote, Grp (Some i) [[Rep NotQuote 1 True]], Lit quote]"

text \<open>The four \<open>timePatterns\<close> of \<open>_extractTimeRange\<close>, all with flag \<open>i\<close>.\<close>

definition timePattern0 :: "re list" where
  "timePattern0 =
     [Lit ''time'', optSpaces, Grp (Some 1) [[Lit ''>=''], [Lit ''>'']], optSpaces] @ quoted 2"

definition timePattern1 :: "re list" where
  "timePattern1 =
     [Lit ''time'', optSpaces, Grp (Some 1) [[Lit ''<=''], [Lit ''<'']], optSpaces] @ quoted 2"

definition timePattern2 :: "re list" where
  "timePattern2 = [Lit ''time'', optSpaces, Lit ''='', optSpaces] @ quoted 1"

definition timePattern3 :: "re list" where
  "timePattern3 =
     [Lit ''time'', spaces, Lit ''BETWEEN'', spaces] @ quoted 1 @
     [spaces, Lit ''AND'', spaces] @ quoted 2"

text \<open>
  \<open>/\bWHERE\s+(.*?)(?:\s+(?:GROUP\s+BY|ORDER\s+BY|LIMIT|HAVING|$))/i\<close>
\<close>

definition whereRe :: "re list" where
  "whereRe =
     [WordBoundary, Lit ''WHERE'', spaces, Grp (Some 1) [[Rep AnyChar 0 False]],
      Grp None [[spaces,
         Grp None [[Lit ''GROUP'', spaces, Lit ''BY''], [Lit ''ORDER'', spaces, Lit ''BY''],
                   [Lit ''LIMIT''], [Lit ''HAVING''], [EndOfInput]]]]]"

text \<open>\<open>String.prototype.trim\<close>.\<close>

definition trim :: "string \<Rightarrow> string" where
  "trim s = rev (dropWhile isSpace (rev (dropWhile isSpace s)))"

text \<open>
  \<open>new Date(s).getTime() * 1000000\<close>: the time value is an integer of milliseconds or
  \<open>NaN\<close>, and the product is the double nearest to the exact one.
\<close>

fun times1e6 :: "jsnum \<Rightarrow> jsnum" where
  "times1e6 NaN = NaN"
| "times1e6 (Num n) = Num (nearestDouble (n * 1000000))"

definition nsOf :: "sys \<Rightarrow> string \<Rightarrow> jsnum option" where
  "nsOf env s = Some (times1e6 (parseMs env s))"

text \<open>
  The state of \<open>start\<close>, \<open>end\<close>, \<open>timeCondition\<close> and \<open>userSpecifiedTimeCondition\<close>
  after the pattern matching of \<open>_extractTimeRange\<close> (lines 817 to 855 of the later
  class, 95 to 133 of the earlier one) on the text \<open>whereClause\<close>.
\<close>

record scan =
  scanStart :: "jsnum option"
  scanEnd :: "jsnum option"
  scanCondition :: "string option"
  userSpecifiedTimeCondition :: bool

definition matchTimePatterns :: "sys \<Rightarrow> string \<Rightarrow> scan" where
  "matchTimePatterns env whereClause =
     (case exec timePattern3 whereClause of
        Some betweenMatch \<Rightarrow>
          \<lparr>scanStart = nsOf env (group betweenMatch 1),
           scanEnd = nsOf env (group betweenMatch 2),
           scanCondition = Some (''time BETWEEN '' @ quote @ group betweenMatch 1 @ quote @
                                 '' AND '' @ quote @ group betweenMatch 2 @ quote),
           userSpecifiedTimeCondition = True\<rparr>
      | None \<Rightarrow>
          (let unset = \<lparr>scanStart = None, scanEnd = None, scanCondition = None,
                     userSpecifiedTimeCondition = False\<rparr>;
               afterStart = (case exec timePattern0 whereClause of
                       None \<Rightarrow> unset
                     | Some startMatch \<Rightarrow>
                         unset\<lparr>scanStart := nsOf env (group startMatch 2),
                            scanCondition := Some (''time '' @ group startMatch 1 @ '' '' @
                                                   quote @ group startMatch 2 @ quote),
                            userSpecifiedTimeCondition := True\<rparr>);
               afterEnd = (case exec timePattern1 whereClause of
                       None \<Rightarrow> afterStart
                     | Some endMatch \<Rightarrow>
                         afterStart\<lparr>scanEnd := nsOf env (group endMatch 2),
                            scanCondition :=
                              (case scanCondition afterStart of
                                 Some combined \<Rightarrow>
                                   Some (combined @ '' AND time '' @ group endMatch 1 @
                                         '' '' @ quote @ group endMatch 2 @ quote)
                               | None \<Rightarrow>
                                   Some (''time '' @ group endMatch 1 @ '' '' @
                                         quote @ group endMatch 2 @ quote)),
                            userSpecifiedTimeCondition := True\<rparr>)
           in (case exec timePattern2 whereClause of
                 None \<Rightarrow> afterEnd
               | Some equalMatch \<Rightarrow>
                   afterEnd\<lparr>scanStart := nsOf env (group equalMatch 1),
                      scanEnd := nsOf env (group equalMatch 1),
                      scanCondition := Some (''time = '' @ quote @ group equalMatch 1 @ quote),
                      userSpecifiedTimeCondition := True\<rparr>)))"

text \<open>
  The end of \<open>_extractTimeRange\<close> (lines 856 to 869, and 135 to 148): the defaults.  The
  tests \<open>start && !end\<close> and \<open>!start && end\<close> are tests of truthiness.
\<close>

definition applyDefaults :: "sys \<Rightarrow> scan \<Rightarrow> timeRange" where
  "applyDefaults env sc =
     (if \<not> userSpecifiedTimeCondition sc
      then \<lparr>start = None, end = None, timeCondition = None\<rparr>
      else if truthy (scanStart sc) \<and> \<not> truthy (scanEnd sc)
      then \<lparr>start = scanStart sc, end = Some (times1e6 (Num (now env))),
            timeCondition = scanCondition sc\<rparr>
      else if \<not> truthy (scanStart sc) \<and> truthy (scanEnd sc)
      then \<lparr>start = Some (Num 0), end = scanEnd sc, timeCondition = scanCondition sc\<rparr>
      else \<lparr>start = scanStart sc, end = scanEnd sc, timeCondition = scanCondition sc\<rparr>)"

text \<open>
  \<open>_extractTimeRange(sql, whereClause = '')\<close> of the later class: an empty
  \<open>whereClause\<close> is replaced by what \<open>whereRe\<close> finds in \<open>sql\<close>.
\<close>

definition extractTimeRange :: "sys \<Rightarrow> string \<Rightarrow> string \<Rightarrow> timeRange" where
  "extractTimeRange env sql whereClause =
     (let clause = (if whereClause = []
                    then (case exec whereRe sql of
                            Some whereMatch \<Rightarrow> trim (group whereMatch 1)
                          | None \<Rightarrow> [])
                    else whereClause)
      in applyDefaults env (matchTimePatterns env clause))"

text \<open>\<open>_extractTimeRange(sql)\<close> of the earlier class: the patterns run on \<open>sql\<close>.\<close>

definition extractTimeRange1 :: "sys \<Rightarrow> string \<Rightarrow> timeRange" where
  "extractTimeRange1 env sql = applyDefaults env (matchTimePatterns env sql)"

section \<open>The query descriptor\<close>

text \<open>\<open>sql.replace(/\s+/g, ' ')\<close>: every run of white space becomes one blank.\<close>

fun collapse :: "bool \<Rightarrow> string \<Rightarrow> string" where
  "collapse inRun [] = []"
| "collapse inRun (c # cs) =
     (if isSpace c then (if inRun then collapse True cs else CHR '' '' # collapse True cs)
      else c # collapse False cs)"

definition selectRe :: "re list" where
  "selectRe =
     [Lit ''SELECT'', spaces, Grp (Some 1) [[Rep AnyChar 0 False]], spaces, Lit ''FROM'']"

definition fromRe :: "re list" where
  "fromRe =
     [Lit ''FROM'', spaces, Grp None [[Grp (Some 1) [[Rep WordChar 1 True]], Lit ''.''], []],
      Grp (Some 2) [[Rep WordChar 1 True]]]"

definition whereSplitRe :: "re list" where
  "whereSplitRe = [spaces, Lit ''WHERE'', spaces]"

text \<open>
  \<open>/ORDER\s+BY\s+(.*?)(?:\s+(?:LIMIT|GROUP|HAVING|$))/i\<close> and its siblings: a clause
  keyword, its lazily matched body, and the keywords that end it.
\<close>

definition clauseRe :: "re list \<Rightarrow> string list \<Rightarrow> re list" where
  "clauseRe keyword enders =
     keyword @ [spaces, Grp (Some 1) [[Rep AnyChar 0 False]],
       Grp None [[spaces, Grp None (map (\<lambda>k. [Lit k]) enders @ [[EndOfInput]])]]]"

definition orderByRe :: "re list" where
  "orderByRe = clauseRe [Lit ''ORDER'', spaces, Lit ''BY''] [''LIMIT'', ''GROUP'', ''HAVING'']"

definition groupByRe :: "re list" where
  "groupByRe = clauseRe [Lit ''GROUP'', spaces, Lit ''BY''] [''ORDER'', ''LIMIT'', ''HAVING'']"

definition havingRe :: "re list" where
  "havingRe = clauseRe [Lit ''HAVING''] [''ORDER'', ''LIMIT'']"

definition limitRe :: "re list" where
  "limitRe = [Lit ''LIMIT'', spaces, Grp (Some 1) [[Rep Digit 1 True]]]"

text \<open>\<open>s.indexOf(k)\<close>, \<open>None\<close> for \<open>-1\<close>.\<close>

fun indexOf :: "string \<Rightarrow> string \<Rightarrow> nat option" where
  "indexOf [] k = (if k = [] then Some 0 else None)"
| "indexOf (c # cs) k =
     (if startsWith (c # cs) k then Some 0 else map_option Suc (indexOf cs k))"

text \<open>
  The loop over \<open>endClauseKeywords\<close>: the text is cut at each keyword found in its
  upper-case form.
\<close>

fun cutAtKeywords :: "string list \<Rightarrow> string \<Rightarrow> string" where
  "cutAtKeywords [] whereConditions = whereConditions"
| "cutAtKeywords (keyword # rest) whereConditions =
     cutAtKeywords rest
       (case indexOf (map toUpper whereConditions) keyword of
          None \<Rightarrow> whereConditions
        | Some keywordIndex \<Rightarrow> take keywordIndex whereConditions)"

text \<open>
  \<open>sql.split(/\s+WHERE\s+/i)\<close>: \<open>None\<close> when there is one part only, and else the second
  part, which ends where the separator matches next.
\<close>

definition secondPart :: "re list \<Rightarrow> string \<Rightarrow> string option" where
  "secondPart separator s =
     (case exec separator s of
        None \<Rightarrow> None
      | Some first \<Rightarrow>
          Some (case exec separator (matchAfter first) of
                  None \<Rightarrow> matchAfter first
                | Some second \<Rightarrow> matchBefore second))"

text \<open>The body of a clause: \<open>sql.match(re)?.[1] || ''\<close>.\<close>

definition clauseOf :: "re list \<Rightarrow> string \<Rightarrow> string" where
  "clauseOf r sql = (case exec r sql of None \<Rightarrow> [] | Some m \<Rightarrow> group m 1)"

record queryDescriptor =
  columns :: string
  dbName :: string
  measurement :: string
  timeRange :: timeRange
  whereConditions :: string
  orderBy :: string
  groupBy :: string
  having :: string
  limit :: "jsnum option"

text \<open>
  \<open>parseQuery\<close> of the later class (lines 715 to 787).  The time range is the constant
  \<open>{ start: null, end: null, timeCondition: null }\<close>; \<open>_extractTimeRange\<close> is not called.
\<close>

definition parseQuery :: "string \<Rightarrow> string \<Rightarrow> error + queryDescriptor" where
  "parseQuery sql0 db =
     (let sql = trim (collapse False sql0);
          selectMatch = exec selectRe sql;
          fromMatch = exec fromRe sql
      in case fromMatch of
           None \<Rightarrow> Inl InvalidQuery
         | Some fm \<Rightarrow>
             Inr \<lparr>columns = (case selectMatch of None \<Rightarrow> ''*'' | Some sm \<Rightarrow> trim (group sm 1)),
                  dbName = (case map_of (matchGroups fm) 1 of None \<Rightarrow> db | Some name \<Rightarrow> name),
                  measurement = group fm 2,
                  timeRange = \<lparr>start = None, end = None, timeCondition = None\<rparr>,
                  whereConditions =
                    (case secondPart whereSplitRe sql of
                       None \<Rightarrow> []
                     | Some part \<Rightarrow>
                         cutAtKeywords
                           ['' GROUP BY '', '' ORDER BY '', '' LIMIT '', '' HAVING ''] part),
                  orderBy = clauseOf orderByRe sql,
                  groupBy = clauseOf groupByRe sql,
                  having = clauseOf havingRe sql,
                  limit = (case exec limitRe sql of
                             None \<Rightarrow> None
                           | Some limitMatch \<Rightarrow> Some (parseInt (group limitMatch 1)))\<rparr>)"

section \<open>Rows and the query\<close>

datatype jsval =
    Null | Undefined | BoolV bool | NumV jsnum | StrV string | BigIntV int | DateV jsnum
  | ArrV "jsval list" | ObjV "(string \<times> jsval) list"

type_synonym row = "(string \<times> jsval) list"

text \<open>
  The embedded engine as the client sees it: whether \<open>this.connection\<close> is set, what
  \<open>this.connection.query\<close> returns for a statement (rows, or the message of the error it
  throws), and the text of the statement built from the original one, the descriptor and
  the files (lines 1263 to 1313), or the exception of building it: the table pattern is
  compiled from the database and measurement names.
\<close>

record engine =
  connection :: bool
  connectionQuery :: "string \<Rightarrow> string + row list"
  duckdbQueryOf :: "string \<Rightarrow> queryDescriptor \<Rightarrow> string list \<Rightarrow> error + string"

text \<open>
  The part of \<open>query\<close> after the files are known: the result, and the statements that
  were handed to the engine.
\<close>

definition executeOn ::
  "engine \<Rightarrow> string \<Rightarrow> queryDescriptor \<Rightarrow> string list \<Rightarrow> (error + row list) \<times> string list"
where
  "executeOn eng sql parsed resolved =
     (if length resolved = 0 then (Inr [], [])
      else (case duckdbQueryOf eng sql parsed resolved of
              Inl err \<Rightarrow> (Inl err, [])
            | Inr duckdbQuery \<Rightarrow>
                (case connectionQuery eng duckdbQuery of
                   Inl message \<Rightarrow>
                     (Inl (EngineError (''DuckDB query execution failed: '' @ message)),
                      [duckdbQuery])
                 | Inr result \<Rightarrow> (Inr result, [duckdbQuery]))))"

text \<open>\<open>query\<close> of the later class (lines 1239 to 1332).\<close>

definition query ::
  "sys \<Rightarrow> engine \<Rightarrow> string \<Rightarrow> string \<Rightarrow> (error + row list) \<times> string list"
where
  "query env eng sql db =
     (if \<not> connection eng then (Inl NotInitialized, [])
      else (case parseQuery sql db of
              Inl err \<Rightarrow> (Inl err, [])
            | Inr parsed \<Rightarrow>
                executeOn eng sql parsed
                  (findRelevantFiles env (dbName parsed) (measurement parsed)
                     (timeRange parsed))))"

section \<open>Normalization of the rows of \<open>/query\<close>\<close>

definition stringIncludes :: "string \<Rightarrow> string \<Rightarrow> bool" where
  "stringIncludes s k = (indexOf s k \<noteq> None)"

definition digitChar :: "nat \<Rightarrow> char" where
  "digitChar d = ''0123456789'' ! d"

fun showNat :: "nat \<Rightarrow> string" where
  "showNat n = (if n < 10 then [digitChar n] else showNat (n div 10) @ [digitChar (n mod 10)])"

declare showNat.simps [simp del]

text \<open>\<open>BigInt.prototype.toString\<close>.\<close>

definition showInt :: "int \<Rightarrow> string" where
  "showInt i = (if i < 0 then CHR ''-'' # showNat (nat (- i)) else showNat (nat i))"

text \<open>
  The loop \<open>while (value[i.toString()] !== undefined) { str += value[i.toString()]; i++ }\<close>.
  Each round reads another key, so the number of properties bounds the rounds;
  \<open>toStr\<close> is the conversion that \<open>+=\<close> applies to a property value.
\<close>

fun bufferText :: "(jsval \<Rightarrow> string) \<Rightarrow> row \<Rightarrow> nat \<Rightarrow> nat \<Rightarrow> string" where
  "bufferText toStr props i 0 = []"
| "bufferText toStr props i (Suc rounds) =
     (case map_of props (showNat i) of
        None \<Rightarrow> []
      | Some Undefined \<Rightarrow> []
      | Some v \<Rightarrow> toStr v @ bufferText toStr props (Suc i) rounds)"

text \<open>
  The value stored for one column (lines 95 to 117 of \<open>QueryServer.js\<close>), in the order
  of the tests: a \<open>null\<close> count, a BigInt, an object with a key \<open>0\<close> that is not an
  array and has \<open>ptr\<close>, anything else.
\<close>

definition fixValue :: "(jsval \<Rightarrow> string) \<Rightarrow> string \<Rightarrow> jsval \<Rightarrow> jsval" where
  "fixValue toStr key v =
     (if stringIncludes key ''count'' \<and> v = Null then NumV (Num 0)
      else (case v of
              BigIntV n \<Rightarrow> StrV (showInt n)
            | ObjV props \<Rightarrow>
                if ''0'' \<in> set (map fst props)
                then (if ''ptr'' \<in> set (map fst props)
                      then StrV (bufferText toStr props 0 (length props))
                      else v)
                else v
            | other \<Rightarrow> v))"

text \<open>\<open>fixedRow[key] = x\<close>: an existing property is overwritten, a new one is added last.\<close>

fun assign :: "row \<Rightarrow> string \<Rightarrow> jsval \<Rightarrow> row" where
  "assign [] key x = [(key, x)]"
| "assign ((k, v) # props) key x =
     (if k = key then (k, x) # props else (k, v) # assign props key x)"

fun fixEntries :: "(jsval \<Rightarrow> string) \<Rightarrow> row \<Rightarrow> row \<Rightarrow> row" where
  "fixEntries toStr [] fixedRow = fixedRow"
| "fixEntries toStr ((key, v) # entries) fixedRow =
     fixEntries toStr entries (assign fixedRow key (fixValue toStr key v))"

definition fixRow :: "(jsval \<Rightarrow> string) \<Rightarrow> row \<Rightarrow> row" where
  "fixRow toStr r = fixEntries toStr r []"

definition processedResults :: "(jsval \<Rightarrow> string) \<Rightarrow> row list \<Rightarrow> row list" where
  "processedResults toStr result = map (fixRow toStr) result"

section \<open>Closed forms used in the statements\<close>



text \<open>
  A manifest entry lies strictly outside the interval from \<open>s\<close> to \<open>e\<close> when, as parsed,
  it ends before \<open>s\<close> or begins after \<open>e\<close>.  \<open>dropOutside\<close> deletes these entries from
  a manifest, \<open>dropOutsideObj\<close> from every manifest of a directory tree, and
  \<open>dropOutsideSys\<close> from every manifest of the file system.
\<close>

definition strictlyOutside :: "int \<Rightarrow> int \<Rightarrow> file_entry \<Rightarrow> bool" where
  "strictlyOutside s e file =
     (file_max_time (parseEntry file) < s \<or> e < file_min_time (parseEntry file))"

definition dropOutside :: "int \<Rightarrow> int \<Rightarrow> manifest \<Rightarrow> manifest" where
  "dropOutside s e document =
     \<lparr>min_time = min_time document, max_time = max_time document,
      files = filter (\<lambda>file. \<not> strictlyOutside s e file) (files document)\<rparr>"

fun dropOutsideObj :: "int \<Rightarrow> int \<Rightarrow> fsobj \<Rightarrow> fsobj" where
  "dropOutsideObj s e (File (Json document)) = File (Json (dropOutside s e document))"
| "dropOutsideObj s e (File Opaque) = File Opaque"
| "dropOutsideObj s e (Dir entries) = Dir (map (\<lambda>(name, x). (name, dropOutsideObj s e x)) entries)"
| "dropOutsideObj s e Locked = Locked"

definition dropOutsideSys :: "int \<Rightarrow> int \<Rightarrow> sys \<Rightarrow> sys" where
  "dropOutsideSys s e env =
     \<lparr>dataDir = dataDir env,
      lookup = (\<lambda>p. map_option (dropOutsideObj s e) (lookup env p)),
      existsSync = existsSync env, join = join env, basename = basename env,
      relative = relative env, newDateStr = newDateStr env, newDateNum = newDateNum env,
      dateOnly = dateOnly env, parseMs = parseMs env, now = now env\<rparr>"

text \<open>
  A normalized row: no BigInt, no \<open>null\<close> under a name with \<open>count\<close>, no object with
  the keys \<open>0\<close> and \<open>ptr\<close>.
\<close>

fun isBigInt :: "jsval \<Rightarrow> bool" where
  "isBigInt (BigIntV n) = True"
| "isBigInt v = False"

fun isCharBuffer :: "jsval \<Rightarrow> bool" where
  "isCharBuffer (ObjV props) = (''0'' \<in> set (map fst props) \<and> ''ptr'' \<in> set (map fst props))"
| "isCharBuffer v = False"

definition normalized :: "row \<Rightarrow> bool" where
  "normalized r =
     list_all (\<lambda>(key, v). \<not> isBigInt v \<and> \<not> (stringIncludes key ''count'' \<and> v = Null) \<and>
                           \<not> isCharBuffer v) r"

text \<open>One iteration of the loop of \<open>findFiles\<close>, named for the proofs.\<close>

definition entryStep ::
  "sys \<Rightarrow> string \<Rightarrow> string \<Rightarrow> nat \<Rightarrow> string \<Rightarrow> fsobj \<Rightarrow>
   parquetInfo list \<times> metadataInfo list \<Rightarrow> parquetInfo list \<times> metadataInfo list"
where
  "entryStep env basePath dirPath level name x found =
     (let fullPath = join env dirPath name in
        if isFile x
        then (if endsWith name ''.parquet''
              then (fst found @ [\<lparr>pq_path = fullPath, pq_name = name,
                      pq_relativePath = relative env basePath fullPath\<rparr>], snd found)
              else if name = ''metadata.json''
              then (fst found, snd found @ [\<lparr>md_path = fullPath,
                      md_relativePath = relative env basePath fullPath,
                      md_content = (case x of File (Json document) \<Rightarrow> Some (jsonParse document)
                                    | other \<Rightarrow> None)\<rparr>])
              else found)
        else if isDirectory x \<and> level < 10
        then findFiles env basePath fullPath (Some x) (level + 1) found
        else found)"

text \<open>
  \<open>nest n x\<close> puts \<open>x\<close> below \<open>n\<close> directories named \<open>d\<close>, and \<open>nestPath\<close> is the path
  that leads there.  \<open>cut k x\<close> empties every directory more than \<open>k\<close> levels below \<open>x\<close>.
\<close>

fun nest :: "nat \<Rightarrow> fsobj \<Rightarrow> fsobj" where
  "nest 0 x = x"
| "nest (Suc n) x = Dir [(''d'', nest n x)]"

fun nestPath :: "sys \<Rightarrow> string \<Rightarrow> nat \<Rightarrow> string" where
  "nestPath env p 0 = p"
| "nestPath env p (Suc n) = nestPath env (join env p ''d'') n"

definition leafDir :: fsobj where
  "leafDir = Dir [(''x.parquet'', File Opaque)]"

fun cut :: "nat \<Rightarrow> fsobj \<Rightarrow> fsobj" where
  "cut k (File c) = File c"
| "cut k Locked = Locked"
| "cut 0 (Dir entries) =
     Dir (map (\<lambda>(name, x). (name, if isFile x then x else Dir [])) entries)"
| "cut (Suc k) (Dir entries) = Dir (map (\<lambda>(name, x). (name, cut k x)) entries)"

text \<open>
  The levels of directories of a tree, the root counted: none for a regular file, one
  for a directory without subdirectories.
\<close>

fun maximum :: "nat list \<Rightarrow> nat" where
  "maximum [] = 0"
| "maximum (n # ns) = max n (maximum ns)"

fun levels :: "fsobj \<Rightarrow> nat" where
  "levels (File c) = 0"
| "levels Locked = 1"
| "levels (Dir entries) = Suc (maximum (map (\<lambda>(name, x). levels x) entries))"

definition cutEntry :: "nat \<Rightarrow> string \<times> fsobj \<Rightarrow> string \<times> fsobj" where
  "cutEntry k entry =
     (fst entry, case k of 0 \<Rightarrow> (if isFile (snd entry) then snd entry else Dir [])
                 | Suc k' \<Rightarrow> cut k' (snd entry))"

section \<open>A concrete system\<close>

text \<open>
  A small data directory with a \<open>/\<close>-separated path syntax and a \<open>Date\<close> in UTC
  (proleptic Gregorian calendar), on which the functions are run.
\<close>

fun splitPath :: "string \<Rightarrow> string \<Rightarrow> string list" where
  "splitPath [] seg = [seg]"
| "splitPath (c # cs) seg =
     (if c = CHR ''/'' then seg # splitPath cs [] else splitPath cs (seg @ [c]))"

fun descend :: "fsobj \<Rightarrow> string list \<Rightarrow> fsobj option" where
  "descend x [] = Some x"
| "descend (Dir es) (n # ns) = (case map_of es n of None \<Rightarrow> None | Some y \<Rightarrow> descend y ns)"
| "descend x (n # ns) = None"

definition civilOfDays :: "int \<Rightarrow> int \<times> int \<times> int" where
  "civilOfDays days =
     (let z = days + 719468; era = z div 146097; doe = z mod 146097;
          yoe = (doe - doe div 1460 + doe div 36524 - doe div 146096) div 365;
          doy = doe - (365 * yoe + yoe div 4 - yoe div 100);
          mp = (5 * doy + 2) div 153;
          d = doy - (153 * mp + 2) div 5 + 1;
          m = (if mp < 10 then mp + 3 else mp - 9)
      in (yoe + era * 400 + (if m \<le> 2 then 1 else 0), m, d))"

definition daysOfCivil :: "int \<Rightarrow> int \<Rightarrow> int \<Rightarrow> int" where
  "daysOfCivil y m d =
     (let y1 = (if m \<le> 2 then y - 1 else y); era = y1 div 400; yoe = y1 - era * 400;
          doy = (153 * (if m > 2 then m - 3 else m + 9) + 2) div 5 + d - 1;
          doe = yoe * 365 + yoe div 4 - yoe div 100 + doy
      in era * 146097 + doe - 719468)"

definition invalidDate :: jsdate where
  "invalidDate = \<lparr>getFullYear = NaN, getMonth = NaN, getDate = NaN, getHours = NaN\<rparr>"

fun utcDate :: "jsnum \<Rightarrow> jsdate" where
  "utcDate NaN = invalidDate"
| "utcDate (Num ms) =
     (case civilOfDays (ms div 86400000) of (y, m, d) \<Rightarrow>
        \<lparr>getFullYear = Num y, getMonth = Num (m - 1), getDate = Num d,
         getHours = Num ((ms mod 86400000) div 3600000)\<rparr>)"

definition utcDateOfString :: "string \<Rightarrow> jsdate" where
  "utcDateOfString s =
     (if length s = 10 \<and> s ! 4 = CHR ''-'' \<and> s ! 7 = CHR ''-''
      then (case (parseInt (take 4 s), parseInt (take 2 (drop 5 s)), parseInt (drop 8 s)) of
              (Num y, Num m, Num d) \<Rightarrow>
                \<lparr>getFullYear = Num y, getMonth = Num (m - 1), getDate = Num d, getHours = Num 0\<rparr>
            | _ \<Rightarrow> invalidDate)
      else invalidDate)"

definition utcDateOnly :: "jsdate \<Rightarrow> jsnum" where
  "utcDateOnly dt =
     (case (getFullYear dt, getMonth dt, getDate dt) of
        (Num y, Num m, Num d) \<Rightarrow> Num (daysOfCivil y (m + 1) d * 86400000)
      | _ \<Rightarrow> NaN)"

text \<open>A \<open>Date\<close> parser for \<open>YYYY-MM-DDTHH:MM:SS\<close> with an optional \<open>Z\<close>, in UTC.\<close>

definition isoMs :: "string \<Rightarrow> jsnum" where
  "isoMs s =
     (if (length s = 19 \<or> (length s = 20 \<and> s ! 19 = CHR ''Z'')) \<and>
         s ! 4 = CHR ''-'' \<and> s ! 7 = CHR ''-'' \<and> s ! 10 = CHR ''T'' \<and>
         s ! 13 = CHR '':'' \<and> s ! 16 = CHR '':''
      then (case map parseInt [take 4 s, take 2 (drop 5 s), take 2 (drop 8 s),
                               take 2 (drop 11 s), take 2 (drop 14 s), take 2 (drop 17 s)] of
              [Num y, Num mo, Num d, Num h, Num mi, Num sec] \<Rightarrow>
                Num ((((daysOfCivil y mo d * 24 + h) * 60 + mi) * 60 + sec) * 1000)
            | other \<Rightarrow> NaN)
      else NaN)"

definition fileA :: file_entry where
  "fileA = \<lparr>path = ''/mnt/old/a.parquet'', file_min_time = 1744293600000000000,
             file_max_time = 1744294000000000000\<rparr>"

definition fileB :: file_entry where
  "fileB = \<lparr>path = ''data/mydb/weather/date=2025-04-10/hour=14/b.parquet'',
             file_min_time = 1744296000000000000, file_max_time = 1744297200000000000\<rparr>"

definition hourManifest :: manifest where
  "hourManifest =
     \<lparr>min_time = 1744293600000000000, max_time = 1744297200000000000,
      files = [fileA, fileB]\<rparr>"

definition hourNames :: "string list" where
  "hourNames =
     [''hour=00'', ''hour=01'', ''hour=02'', ''hour=03'', ''hour=04'', ''hour=05'',
      ''hour=06'', ''hour=07'', ''hour=08'', ''hour=09'', ''hour=10'', ''hour=11'',
      ''hour=12'', ''hour=13'', ''hour=14'', ''hour=15'', ''hour=16'', ''hour=17'',
      ''hour=18'', ''hour=19'', ''hour=20'', ''hour=21'', ''hour=22'', ''hour=23'']"

definition dayDir :: fsobj where
  "dayDir = Dir (map (\<lambda>h. (h, Dir [])) hourNames @ [(''README'', File Opaque)])"


text \<open>\<open>fileGhost\<close> is listed in the manifest of \<open>hour=16\<close> and is nowhere on disk.\<close>

definition fileGhost :: file_entry where
  "fileGhost = \<lparr>path = ''/mnt/old/ghost.parquet'', file_min_time = 1744300800000000000,
                 file_max_time = 1744302000000000000\<rparr>"

definition laterManifest :: manifest where
  "laterManifest =
     \<lparr>min_time = 1744300800000000000, max_time = 1744304400000000000,
      files = [\<lparr>path = ''data/mydb/weather/date=2025-04-10/hour=16/c.parquet'',
                file_min_time = 1744300800000000000,
                file_max_time = 1744304400000000000\<rparr>,
               fileGhost]\<rparr>"

text \<open>
  A manifest written with a last instant one nanosecond before \<open>s0\<close> (below): no double
  has that value, and \<open>JSON.parse\<close> reads \<open>s0\<close>.
\<close>

definition fileE :: file_entry where
  "fileE = \<lparr>path = ''data/mydb/edge/date=2025-04-10/hour=14/e.parquet'',
             file_min_time = 1744293600000000000, file_max_time = 1744294999999999999\<rparr>"

definition edgeManifest :: manifest where
  "edgeManifest =
     \<lparr>min_time = 1744293600000000000, max_time = 1744294999999999999, files = [fileE]\<rparr>"

definition hourEntries0 :: "(string \<times> fsobj) list" where
  "hourEntries0 =
     [(''metadata.json'', File (Json hourManifest)),
      (''a.parquet'', File Opaque), (''b.parquet'', File Opaque)]"

definition hourDir0 :: fsobj where
  "hourDir0 = Dir hourEntries0"

definition hourPath0 :: string where
  "hourPath0 = ''data/mydb/weather/date=2025-04-10/hour=14''"

text \<open>A query interval inside the hour of \<open>hourManifest\<close> and after \<open>fileA\<close>.\<close>

definition s0 :: int where
  "s0 = 1744295000000000000"

definition e0 :: int where
  "e0 = 1744299000000000000"

text \<open>The hour from 15:00 to 16:00 on 2025-04-10, in nanoseconds.\<close>

definition s1 :: int where
  "s1 = 1744297200000000000"


definition demoRoot :: fsobj where
  "demoRoot =
     Dir [(''data'', Dir [(''mydb'', Dir [
       (''weather'', Dir [
          (''date=2025-04-10'', Dir [
             (''hour=14'', hourDir0),
             (''hour=15'', Dir [(''metadata.json'', File Opaque)]),
             (''hour=16'', Dir [(''metadata.json'', File (Json laterManifest)),
                                (''c.parquet'', File Opaque)])])]),
       (''cpu'', Dir [(''date=2025-04-10'', dayDir), (''date=2025-04-11'', dayDir),
                      (''date=2025-04-12'', dayDir)]),
       (''edge'', Dir [
          (''date=2025-04-10'', Dir [
             (''hour=14'', Dir [(''metadata.json'', File (Json edgeManifest)),
                                (''e.parquet'', File Opaque)])])]),
       (''flat'', Dir [(''x.parquet'', File Opaque), (''notes.txt'', File Opaque),
                       (''sub'', Dir [(''y.parquet'', File Opaque)])])])])]"

definition demo :: sys where
  "demo =
     \<lparr>dataDir = ''data'',
      lookup = (\<lambda>p. descend demoRoot (splitPath p [])),
      existsSync = (\<lambda>p. descend demoRoot (splitPath p []) \<noteq> None),
      join = (\<lambda>a b. a @ ''/'' @ b),
      basename = (\<lambda>p. last (splitPath p [])),
      relative = (\<lambda>a b. drop (length a + 1) b),
      newDateStr = utcDateOfString,
      newDateNum = utcDate,
      dateOnly = utcDateOnly,
      parseMs = isoMs,
      now = 1762128000000\<rparr>"

text \<open>
  Date directories and instants for the hour filter: 14:00 and 15:00 on 2025-04-10,
  09:00 on 2025-04-11 and 09:00 on 2025-04-12.
\<close>

definition day1 :: string where
  "day1 = ''data/mydb/cpu/date=2025-04-10''"

definition day2 :: string where
  "day2 = ''data/mydb/cpu/date=2025-04-11''"

definition t1 :: jsdate where
  "t1 = utcDate (Num 1744293600000)"

definition t2 :: jsdate where
  "t2 = utcDate (Num 1744297200000)"

definition t3 :: jsdate where
  "t3 = utcDate (Num 1744362000000)"

definition t4 :: jsdate where
  "t4 = utcDate (Num 1744448400000)"

text \<open>
  Statements and \<open>WHERE\<close> texts for the extractor, an engine that answers every
  statement with one raw row, and that row after normalization.
\<close>

definition whereEpoch :: string where
  "whereEpoch = ''time >= '' @ quote @ ''1970-01-01T00:00:00Z'' @ quote"

definition sqlEpoch :: string where
  "sqlEpoch = ''SELECT * FROM weather WHERE '' @ whereEpoch"

definition sqlUntilEpoch :: string where
  "sqlUntilEpoch =
     ''SELECT * FROM weather WHERE time <= '' @ quote @ ''1970-01-01T00:00:00Z'' @ quote"

definition sqlTypo :: string where
  "sqlTypo = ''SELECT * FROM weather WHERE time >= '' @ quote @ ''yesterday'' @ quote"

definition whereBetweenEpoch :: string where
  "whereBetweenEpoch =
     ''time BETWEEN '' @ quote @ ''1969-12-31T00:00:00Z'' @ quote @ '' AND '' @ quote @
     ''1970-01-01T00:00:00Z'' @ quote"

definition sqlBetweenEpoch :: string where
  "sqlBetweenEpoch = ''SELECT * FROM weather WHERE '' @ whereBetweenEpoch"

definition whereAfterUntilEpoch :: string where
  "whereAfterUntilEpoch =
     ''time > '' @ quote @ ''1969-12-31T00:00:00Z'' @ quote @ '' AND time <= '' @ quote @
     ''1970-01-01T00:00:00Z'' @ quote"

definition whereBetweenTypo :: string where
  "whereBetweenTypo =
     ''time BETWEEN '' @ quote @ ''yesterday'' @ quote @ '' AND '' @ quote @
     ''2025-04-10T15:00:00Z'' @ quote"

definition whereBoth :: string where
  "whereBoth =
     ''time BETWEEN '' @ quote @ ''2025-04-10T14:00:00Z'' @ quote @ '' AND '' @ quote @
     ''2025-04-10T15:00:00Z'' @ quote @ '' AND time > '' @ quote @ ''2025-04-11T09:00:00Z'' @
     quote"

definition whereThree :: string where
  "whereThree =
     ''time > '' @ quote @ ''2025-04-10T14:00:00Z'' @ quote @ '' AND time <= '' @ quote @
     ''2025-04-11T09:00:00Z'' @ quote"

definition whereEq :: string where
  "whereEq = whereThree @ '' OR time = '' @ quote @ ''2025-04-10T15:00:00Z'' @ quote"

definition rawRow0 :: row where
  "rawRow0 = [(''time'', BigIntV 1744293600000000000), (''count_star'', Null),
              (''location'', ObjV [(''0'', StrV ''u''), (''1'', StrV ''s''),
                                   (''ptr'', NumV (Num 140))])]"

definition rows0 :: "row list" where
  "rows0 = [rawRow0]"

definition statementOf :: "queryDescriptor \<Rightarrow> string list \<Rightarrow> string" where
  "statementOf parsed resolved =
     ''SELECT '' @ columns parsed @ '' FROM read_parquet(['' @
     concat (map (\<lambda>f. quote @ f @ quote @ '','') resolved) @ ''])''"

definition engine0 :: engine where
  "engine0 =
     \<lparr>connection = True,
      connectionQuery = (\<lambda>statement. Inr rows0),
      duckdbQueryOf = (\<lambda>sql parsed resolved. Inr (statementOf parsed resolved))\<rparr>"

definition sqlNothing :: string where
  "sqlNothing = ''SELECT * FROM nothing''"

definition sqlSince :: string where
  "sqlSince =
     ''SELECT time FROM weather WHERE time >= '' @ quote @ ''2025-04-11T00:00:00'' @ quote"

definition toStr0 :: "jsval \<Rightarrow> string" where
  "toStr0 v = (case v of StrV s \<Rightarrow> s | other \<Rightarrow> ''?'')"

definition fixedRow0 :: row where
  "fixedRow0 = [(''time'', StrV ''1744293600000000000''), (''count_star'', NumV (Num 0)),
                (''location'', StrV ''us'')]"

definition parsedSince :: queryDescriptor where
  "parsedSince =
     \<lparr>columns = ''time'', dbName = ''mydb'', measurement = ''weather'',
      timeRange = \<lparr>start = None, end = None, timeCondition = None\<rparr>,
      whereConditions = ''time >= '' @ quote @ ''2025-04-11T00:00:00'' @ quote,
      orderBy = [], groupBy = [], having = [], limit = None\<rparr>"

definition allWeather :: "string list" where
  "allWeather =
     [''data/mydb/weather/date=2025-04-10/hour=14/b.parquet'',
      ''data/mydb/weather/date=2025-04-10/hour=14/a.parquet'',
      ''data/mydb/weather/date=2025-04-10/hour=14/b.parquet'',
      ''data/mydb/weather/date=2025-04-10/hour=16/c.parquet'',
      ''data/mydb/weather/date=2025-04-10/hour=16/c.parquet'']"

section \<open>Verified properties\<close>

subsection \<open>Pruning of an hour partition\<close>

lemma js_cmp_Num [simp]:
  "js_gt (Num a) (Num b) = (b < a)" "js_ge (Num a) (Num b) = (b \<le> a)"
  by (simp_all add: js_gt_def js_ge_def)









subsection \<open>Pruning inside an overlapping manifest\<close>

lemma dropOutsideSys_fields [simp]:
  "dataDir (dropOutsideSys s e env) = dataDir env"
  "lookup (dropOutsideSys s e env) p = map_option (dropOutsideObj s e) (lookup env p)"
  "existsSync (dropOutsideSys s e env) = existsSync env"
  "join (dropOutsideSys s e env) = join env"
  "basename (dropOutsideSys s e env) = basename env"
  "newDateStr (dropOutsideSys s e env) = newDateStr env"
  "newDateNum (dropOutsideSys s e env) = newDateNum env"
  "dateOnly (dropOutsideSys s e env) = dateOnly env"
  by (simp_all add: dropOutsideSys_def)

lemma dropOutsideObj_kind [simp]:
  "isFile (dropOutsideObj s e x) = isFile x"
  "isDirectory (dropOutsideObj s e x) = isDirectory x"
  by (induction s e x rule: dropOutsideObj.induct) simp_all

lemma readdir_dropOutside [simp]:
  "readdir (dropOutsideSys s e env) p = readdir env p"
proof (cases "lookup env p")
  case None
  then show ?thesis by (simp add: readdir_def)
next
  case (Some x)
  then show ?thesis
    by (induction s e x rule: dropOutsideObj.induct)
      (simp_all add: readdir_def comp_def case_prod_unfold)
qed

lemma jsonParse_dropOutside:
  "jsonParse (dropOutside s e document) =
     \<lparr>min_time = min_time (jsonParse document), max_time = max_time (jsonParse document),
      files = filter (\<lambda>file. s \<le> file_max_time file \<and> file_min_time file \<le> e)
                (files (jsonParse document))\<rparr>"
  by (simp add: jsonParse_def dropOutside_def strictlyOutside_def filter_map comp_def not_less
      de_Morgan_disj)

lemma pushFiles_env:
  "pushFiles (dropOutsideSys s e env) dirPath startNs endNs fs acc =
   pushFiles env dirPath startNs endNs fs acc"
  by (induction fs arbitrary: acc) simp_all

lemma pushFiles_filter:
  "pushFiles env dirPath (Some (Num s)) (Some (Num e))
     (filter (\<lambda>file. s \<le> file_max_time file \<and> file_min_time file \<le> e) fs) acc =
   pushFiles env dirPath (Some (Num s)) (Some (Num e)) fs acc"
  by (induction fs arbitrary: acc) simp_all

lemma readMetadata_dropOutside:
  "readMetadata (dropOutsideSys s e env) p =
     map_option (\<lambda>metadata.
         \<lparr>min_time = min_time metadata, max_time = max_time metadata,
          files = filter (\<lambda>file. s \<le> file_max_time file \<and> file_min_time file \<le> e)
                    (files metadata)\<rparr>)
       (readMetadata env p)"
proof (cases "lookup env p")
  case None
  then show ?thesis by (simp add: readMetadata_def)
next
  case (Some x)
  then show ?thesis
    by (induction s e x rule: dropOutsideObj.induct)
      (simp_all add: readMetadata_def jsonParse_dropOutside)
qed

lemma hiveHour_dropOutside:
  "hiveHour (dropOutsideSys s e env) hourPath (Some (Num s)) (Some (Num e)) acc =
   hiveHour env hourPath (Some (Num s)) (Some (Num e)) acc"
  by (cases "readMetadata env (join env hourPath ''metadata.json'')")
    (simp_all add: hiveHour_def Let_def readMetadata_dropOutside pushFiles_env pushFiles_filter)

lemma hiveHours_dropOutside:
  "hiveHours (dropOutsideSys s e env) datePath (Some (Num s)) (Some (Num e)) hourDirs acc =
   hiveHours env datePath (Some (Num s)) (Some (Num e)) hourDirs acc"
  by (induction hourDirs arbitrary: acc) (simp_all add: hiveHour_dropOutside)

lemma getHourDirectoriesInRange_dropOutside:
  "getHourDirectoriesInRange (dropOutsideSys s e env) datePath startDate endDate =
   getHourDirectoriesInRange env datePath startDate endDate"
  by (simp add: getHourDirectoriesInRange_def Let_def cong: option.case_cong)

lemma getDateDirectoriesInRange_dropOutside:
  "getDateDirectoriesInRange (dropOutsideSys s e env) db meas startDate endDate =
   getDateDirectoriesInRange env db meas startDate endDate"
  by (simp add: getDateDirectoriesInRange_def join3_def Let_def cong: option.case_cong)

lemma hiveDates_dropOutside:
  "hiveDates (dropOutsideSys s e env) db meas startDate endDate (Some (Num s)) (Some (Num e))
     dateDirs acc =
   hiveDates env db meas startDate endDate (Some (Num s)) (Some (Num e)) dateDirs acc"
  by (induction dateDirs arbitrary: acc)
    (simp_all add: join3_def Let_def getHourDirectoriesInRange_dropOutside
       hiveHours_dropOutside split: sum.splits)

lemma findFilesByHiveStructure_dropOutside:
  "findFilesByHiveStructure (dropOutsideSys s e env) db meas startDate endDate
     (Some (Num s)) (Some (Num e)) =
   findFilesByHiveStructure env db meas startDate endDate (Some (Num s)) (Some (Num e))"
  by (simp add: findFilesByHiveStructure_def getDateDirectoriesInRange_dropOutside
      hiveDates_dropOutside split: sum.splits)

lemma findMetadataEntry_dropOutside:
  "findMetadataEntry (map (\<lambda>(name, x). (name, dropOutsideObj s e x)) entries) =
   map_option (\<lambda>(name, x). (name, dropOutsideObj s e x)) (findMetadataEntry entries)"
  by (induction entries) (auto simp: findMetadataEntry_def)

lemma pushParquet_dropOutside:
  "pushParquet (dropOutsideSys s e env) dirPath
     (map (\<lambda>(name, x). (name, dropOutsideObj s e x)) entries) acc =
   pushParquet env dirPath entries acc"
  by (induction entries arbitrary: acc) auto

lemma metadataSubdirs_dropOutside:
  assumes "\<And>entry p acc. entry \<in> set entries \<Longrightarrow>
             findMetadataFilesRecursively (dropOutsideSys s e env) p
               (Some (dropOutsideObj s e (snd entry))) acc (Some (Num s)) (Some (Num e)) =
             findMetadataFilesRecursively env p (Some (snd entry)) acc (Some (Num s)) (Some (Num e))"
  shows "metadataSubdirs (dropOutsideSys s e env) dirPath
           (map (\<lambda>(name, x). (name, dropOutsideObj s e x)) entries) acc (Some (Num s)) (Some (Num e)) =
         metadataSubdirs env dirPath entries acc (Some (Num s)) (Some (Num e))"
  using assms
proof (induction entries arbitrary: acc)
  case Nil
  show ?case by simp
next
  case (Cons entry rest)
  obtain name x where entry: "entry = (name, x)" by (cases entry)
  have here: "findMetadataFilesRecursively (dropOutsideSys s e env) p
        (Some (dropOutsideObj s e x)) a (Some (Num s)) (Some (Num e)) =
      findMetadataFilesRecursively env p (Some x) a (Some (Num s)) (Some (Num e))" for p a
    using Cons.prems [of entry p a] entry by simp
  have rest: "metadataSubdirs (dropOutsideSys s e env) dirPath
        (map (\<lambda>(name, x). (name, dropOutsideObj s e x)) rest) a (Some (Num s)) (Some (Num e)) =
      metadataSubdirs env dirPath rest a (Some (Num s)) (Some (Num e))" for a
    by (rule Cons.IH) (simp add: Cons.prems)
  show ?case by (simp add: entry here rest)
qed

lemma findMetadataFilesRecursively_dropOutside:
  "findMetadataFilesRecursively (dropOutsideSys s e env) dirPath (Some (dropOutsideObj s e x)) acc
     (Some (Num s)) (Some (Num e)) =
   findMetadataFilesRecursively env dirPath (Some x) acc (Some (Num s)) (Some (Num e))"
proof (induction x arbitrary: dirPath acc)
  case (File c)
  show ?case by (cases c) simp_all
next
  case Locked
  show ?case by simp
next
  case (Dir entries)
  have subdirs: "metadataSubdirs (dropOutsideSys s e env) dirPath
        (map (\<lambda>(name, x). (name, dropOutsideObj s e x)) entries) a (Some (Num s)) (Some (Num e)) =
      metadataSubdirs env dirPath entries a (Some (Num s)) (Some (Num e))" for a
  proof (rule metadataSubdirs_dropOutside)
    fix entry p acc
    assume member: "entry \<in> set entries"
    have child: "snd entry \<in> Basic_BNFs.snds entry"
      by (cases entry) (simp add: prod_set_simps)
    show "findMetadataFilesRecursively (dropOutsideSys s e env) p
               (Some (dropOutsideObj s e (snd entry))) acc (Some (Num s)) (Some (Num e)) =
             findMetadataFilesRecursively env p (Some (snd entry)) acc (Some (Num s)) (Some (Num e))"
      by (rule Dir.IH [OF member child])
  qed
  show ?case
  proof (cases "findMetadataEntry entries")
    case None
    then show ?thesis
      by (simp add: findMetadataEntry_dropOutside pushParquet_dropOutside subdirs)
  next
    case (Some found)
    obtain name y where found: "found = (name, y)" by (cases found)
    show ?thesis
    proof (cases y)
      case (File c)
      show ?thesis
      proof (cases c)
        case (Json document)
        with Some found File show ?thesis
          by (simp add: findMetadataEntry_dropOutside subdirs jsonParse_dropOutside
              pushFiles_env pushFiles_filter)
      next
        case Opaque
        with Some found File show ?thesis
          by (simp add: findMetadataEntry_dropOutside subdirs)
      qed
    next
      case (Dir es)
      with Some found show ?thesis
        by (simp add: findMetadataEntry_dropOutside subdirs)
    next
      case Locked
      with Some found show ?thesis
        by (simp add: findMetadataEntry_dropOutside subdirs)
    qed
  qed
qed

text \<open>
  C2 as stated does not hold.  In the concrete system the manifest of \<open>hour=14\<close> overlaps
  the query interval \<open>[s0, e0]\<close>, \<open>fileA\<close> is listed in it, lies strictly before the
  interval and exists in the partition directory; the resolved set, by the Hive
  resolver and by the recursive fallback, holds the other file only.
\<close>

theorem manifest_files_pruned_individually_counterexample:
  "s0 \<le> max_time (jsonParse hourManifest) \<and> min_time (jsonParse hourManifest) \<le> e0
   \<and> fileA \<in> set (files hourManifest) \<and> strictlyOutside s0 e0 fileA
   \<and> file_max_time fileA < s0
   \<and> existsSync demo (join demo hourPath0 (basename demo (path fileA)))
   \<and> findRelevantFiles demo ''mydb'' ''weather''
         \<lparr>start = Some (Num s0), end = Some (Num e0), timeCondition = None\<rparr>
       = [''data/mydb/weather/date=2025-04-10/hour=14/b.parquet'']
   \<and> findMetadataFilesRecursively demo hourPath0 (lookup demo hourPath0) []
         (Some (Num s0)) (Some (Num e0))
       = [''data/mydb/weather/date=2025-04-10/hour=14/b.parquet'']"
  by code_simp

text \<open>
  C2, amended.  With start and end non-null, pruning is not by manifest only: a manifest
  entry whose own interval, as parsed, lies strictly outside the query interval
  (\<open>file.max_time < start\<close> or \<open>file.min_time > end\<close>) adds nothing to the resolved set,
  whether or not its manifest overlaps the interval.  The result of \<open>findRelevantFiles\<close>,
  by the Hive resolver or by the recursive fallback, is the one it has when every such
  entry is deleted from every manifest of the file system.
\<close>

theorem manifest_files_pruned_individually:
  "findRelevantFiles (dropOutsideSys s e env) db meas
     \<lparr>start = Some (Num s), end = Some (Num e), timeCondition = condition\<rparr> =
   findRelevantFiles env db meas
     \<lparr>start = Some (Num s), end = Some (Num e), timeCondition = condition\<rparr>"
proof -
  have fallback: "findMetadataFilesRecursively (dropOutsideSys s e env) p
        (map_option (dropOutsideObj s e) obj) [] (Some (Num s)) (Some (Num e)) =
      findMetadataFilesRecursively env p obj [] (Some (Num s)) (Some (Num e))" for p obj
    by (cases obj) (simp_all add: findMetadataFilesRecursively_dropOutside)
  show ?thesis
    by (simp add: findRelevantFiles_def Let_def join3_def findFilesByHiveStructure_dropOutside
        fallback split: sum.splits)
qed

theorem manifest_files_pruned_individually_witness:
  "findRelevantFiles (dropOutsideSys s0 e0 demo) ''mydb'' ''weather''
       \<lparr>start = Some (Num s0), end = Some (Num e0), timeCondition = None\<rparr>
     = [''data/mydb/weather/date=2025-04-10/hour=14/b.parquet'']
   \<and> readMetadata (dropOutsideSys s0 e0 demo) (join demo hourPath0 ''metadata.json'')
     = Some \<lparr>min_time = 1744293600000000000, max_time = 1744297200000000000, files = [fileB]\<rparr>
   \<and> file_max_time fileE < s0 \<and> \<not> strictlyOutside s0 e0 fileE
   \<and> findRelevantFiles (dropOutsideSys s0 e0 demo) ''mydb'' ''edge''
       \<lparr>start = Some (Num s0), end = Some (Num e0), timeCondition = None\<rparr>
     = [''data/mydb/edge/date=2025-04-10/hour=14/e.parquet'']"
proof -
  have weather: "findRelevantFiles demo ''mydb'' ''weather''
      \<lparr>start = Some (Num s0), end = Some (Num e0), timeCondition = None\<rparr>
      = [''data/mydb/weather/date=2025-04-10/hour=14/b.parquet'']"
    by code_simp
  have edge: "findRelevantFiles demo ''mydb'' ''edge''
      \<lparr>start = Some (Num s0), end = Some (Num e0), timeCondition = None\<rparr>
      = [''data/mydb/edge/date=2025-04-10/hour=14/e.parquet'']"
    by code_simp
  have deleted: "readMetadata (dropOutsideSys s0 e0 demo) (join demo hourPath0 ''metadata.json'')
      = Some \<lparr>min_time = 1744293600000000000, max_time = 1744297200000000000, files = [fileB]\<rparr>"
    by code_simp
  have rounded: "file_max_time fileE < s0 \<and> \<not> strictlyOutside s0 e0 fileE"
    by code_simp
  show ?thesis
    using manifest_files_pruned_individually [of s0 e0 demo "''mydb''" "''weather''" None]
      manifest_files_pruned_individually [of s0 e0 demo "''mydb''" "''edge''" None]
      weather edge deleted rounded
    by simp
qed

subsection \<open>Fallback to the recursive resolver\<close>

text \<open>
  C3.  With start and end both \<open>null\<close>, \<open>findRelevantFiles\<close> is the all-files scan.  With
  start and end both non-null, when the Hive-structure resolver returns no file the result
  is that of \<open>_findMetadataFilesRecursively\<close> on the measurement directory, started with
  an empty list, whatever it finds.
\<close>

theorem findRelevantFiles_dispatch:
  "(start tr = None \<and> end tr = None \<longrightarrow>
      findRelevantFiles env db meas tr = findAllFiles env db meas)
   \<and> (start tr = Some s \<and> end tr = Some e \<and>
      findFilesByHiveStructure env db meas
        (newDateNum env (msOfNs (Some s))) (newDateNum env (msOfNs (Some e)))
        (Some s) (Some e) = Inr [] \<longrightarrow>
      findRelevantFiles env db meas tr =
        findMetadataFilesRecursively env (join3 env (dataDir env) db meas)
          (lookup env (join3 env (dataDir env) db meas)) [] (Some s) (Some e))"
  by (simp add: findRelevantFiles_def Let_def)

theorem findRelevantFiles_dispatch_witness:
  "findRelevantFiles demo ''mydb'' ''weather'' \<lparr>start = None, end = None, timeCondition = None\<rparr>
     = findAllFiles demo ''mydb'' ''weather''
   \<and> findRelevantFiles demo ''mydb'' ''flat''
       \<lparr>start = Some (Num s0), end = Some (Num e0), timeCondition = None\<rparr>
     = [''data/mydb/flat/x.parquet'', ''data/mydb/flat/sub/y.parquet'']
   \<and> findRelevantFiles demo ''mydb'' ''nothing''
       \<lparr>start = Some (Num s0), end = Some (Num e0), timeCondition = None\<rparr> = []"
proof -
  have hive1: "findFilesByHiveStructure demo ''mydb'' ''flat''
      (newDateNum demo (msOfNs (Some (Num s0)))) (newDateNum demo (msOfNs (Some (Num e0))))
      (Some (Num s0)) (Some (Num e0)) = Inr []"
    by code_simp
  have hive2: "findFilesByHiveStructure demo ''mydb'' ''nothing''
      (newDateNum demo (msOfNs (Some (Num s0)))) (newDateNum demo (msOfNs (Some (Num e0))))
      (Some (Num s0)) (Some (Num e0)) = Inr []"
    by code_simp
  have fallback1: "findMetadataFilesRecursively demo (join3 demo (dataDir demo) ''mydb'' ''flat'')
      (lookup demo (join3 demo (dataDir demo) ''mydb'' ''flat'')) [] (Some (Num s0)) (Some (Num e0))
      = [''data/mydb/flat/x.parquet'', ''data/mydb/flat/sub/y.parquet'']"
    by code_simp
  have fallback2: "findMetadataFilesRecursively demo (join3 demo (dataDir demo) ''mydb'' ''nothing'')
      (lookup demo (join3 demo (dataDir demo) ''mydb'' ''nothing'')) [] (Some (Num s0)) (Some (Num e0))
      = []"
    by code_simp
  show ?thesis
    using findRelevantFiles_dispatch [where tr = "\<lparr>start = None, end = None, timeCondition = None\<rparr>"
        and env = demo and db = "''mydb''" and meas = "''weather''"]
      findRelevantFiles_dispatch [where tr = "\<lparr>start = Some (Num s0), end = Some (Num e0),
        timeCondition = None\<rparr>" and s = "Num s0" and e = "Num e0" and env = demo
        and db = "''mydb''" and meas = "''flat''"]
      findRelevantFiles_dispatch [where tr = "\<lparr>start = Some (Num s0), end = Some (Num e0),
        timeCondition = None\<rparr>" and s = "Num s0" and e = "Num e0" and env = demo
        and db = "''mydb''" and meas = "''nothing''"]
      hive1 hive2 fallback1 fallback2
    by simp
qed

subsection \<open>Hour directories on boundary days\<close>

text \<open>
  C6.  For a date directory that exists and can be listed, \<open>_getHourDirectoriesInRange\<close>
  keeps, of the entries named \<open>hour=...\<close>: those with hour in \<open>[start.hour, end.hour]\<close>
  when the directory's date is the date of start and of end; those with hour at least
  \<open>start.hour\<close> when it is the date of start only; those with hour at most \<open>end.hour\<close>
  when it is the date of end only; all of them on any other day.
\<close>

theorem hour_directory_filter:
  assumes "existsSync env datePath" and "readdir env datePath = Some allDirs"
    and "dirDate = newDateStr env (replaceFirst (basename env datePath) ''date='' [])"
  shows "(sameDay startDate dirDate \<and> sameDay endDate dirDate \<longrightarrow>
           getHourDirectoriesInRange env datePath startDate endDate =
             Inr (filter (\<lambda>dir. startsWith dir ''hour='' \<and>
                    js_ge (hourOf dir) (getHours startDate) \<and>
                    js_le (hourOf dir) (getHours endDate)) allDirs))
       \<and> (sameDay startDate dirDate \<and> \<not> sameDay endDate dirDate \<longrightarrow>
           getHourDirectoriesInRange env datePath startDate endDate =
             Inr (filter (\<lambda>dir. startsWith dir ''hour='' \<and>
                    js_ge (hourOf dir) (getHours startDate)) allDirs))
       \<and> (\<not> sameDay startDate dirDate \<and> sameDay endDate dirDate \<longrightarrow>
           getHourDirectoriesInRange env datePath startDate endDate =
             Inr (filter (\<lambda>dir. startsWith dir ''hour='' \<and>
                    js_le (hourOf dir) (getHours endDate)) allDirs))
       \<and> (\<not> sameDay startDate dirDate \<and> \<not> sameDay endDate dirDate \<longrightarrow>
           getHourDirectoriesInRange env datePath startDate endDate =
             Inr (filter (\<lambda>dir. startsWith dir ''hour='') allDirs))"
  using assms by (simp add: getHourDirectoriesInRange_def Let_def conj_commute)

theorem hour_directory_filter_witness:
  "getHourDirectoriesInRange demo day1 t1 t2 = Inr [''hour=14'', ''hour=15'']
   \<and> getHourDirectoriesInRange demo day1 t1 t3 =
       Inr [''hour=14'', ''hour=15'', ''hour=16'', ''hour=17'', ''hour=18'', ''hour=19'',
            ''hour=20'', ''hour=21'', ''hour=22'', ''hour=23'']
   \<and> getHourDirectoriesInRange demo day2 t1 t3 =
       Inr [''hour=00'', ''hour=01'', ''hour=02'', ''hour=03'', ''hour=04'', ''hour=05'',
            ''hour=06'', ''hour=07'', ''hour=08'', ''hour=09'']
   \<and> getHourDirectoriesInRange demo day2 t1 t4 = Inr hourNames"
proof -
  define names where "names = hourNames @ [''README'']"
  have ex: "existsSync demo day1" "existsSync demo day2"
    by code_simp+
  have ls: "readdir demo day1 = Some names" "readdir demo day2 = Some names"
    unfolding names_def by code_simp+
  have same: "sameDay t1 (newDateStr demo (replaceFirst (basename demo day1) ''date='' []))"
      "sameDay t2 (newDateStr demo (replaceFirst (basename demo day1) ''date='' []))"
      "\<not> sameDay t3 (newDateStr demo (replaceFirst (basename demo day1) ''date='' []))"
      "\<not> sameDay t1 (newDateStr demo (replaceFirst (basename demo day2) ''date='' []))"
      "sameDay t3 (newDateStr demo (replaceFirst (basename demo day2) ''date='' []))"
      "\<not> sameDay t4 (newDateStr demo (replaceFirst (basename demo day2) ''date='' []))"
    by code_simp+
  have f1: "filter (\<lambda>dir. startsWith dir ''hour='' \<and> js_ge (hourOf dir) (getHours t1) \<and>
        js_le (hourOf dir) (getHours t2)) names = [''hour=14'', ''hour=15'']"
    unfolding names_def by code_simp
  have f2: "filter (\<lambda>dir. startsWith dir ''hour='' \<and> js_ge (hourOf dir) (getHours t1)) names =
       [''hour=14'', ''hour=15'', ''hour=16'', ''hour=17'', ''hour=18'', ''hour=19'',
        ''hour=20'', ''hour=21'', ''hour=22'', ''hour=23'']"
    unfolding names_def by code_simp
  have f3: "filter (\<lambda>dir. startsWith dir ''hour='' \<and> js_le (hourOf dir) (getHours t3)) names =
       [''hour=00'', ''hour=01'', ''hour=02'', ''hour=03'', ''hour=04'', ''hour=05'',
        ''hour=06'', ''hour=07'', ''hour=08'', ''hour=09'']"
    unfolding names_def by code_simp
  have f4: "filter (\<lambda>dir. startsWith dir ''hour='') names = hourNames"
    unfolding names_def by code_simp
  show ?thesis
    using hour_directory_filter [OF ex(1) ls(1) refl, of t1 t2]
      hour_directory_filter [OF ex(1) ls(1) refl, of t1 t3]
      hour_directory_filter [OF ex(2) ls(2) refl, of t1 t3]
      hour_directory_filter [OF ex(2) ls(2) refl, of t1 t4]
      same f1 f2 f3 f4
    by simp
qed

subsection \<open>Depth of the directory walks\<close>

lemma isDirectory_nest: "isDirectory (nest n leafDir)"
  by (cases n) (simp_all add: leafDir_def)

lemma fallback_unbounded:
  "findMetadataFilesRecursively env p (Some (nest n leafDir)) acc s e =
     acc @ [join env (nestPath env p n) ''x.parquet'']"
proof (induction n arbitrary: p acc)
  case 0
  show ?case by (simp add: leafDir_def findMetadataEntry_def endsWith_def)
next
  case (Suc n)
  then show ?case by (simp add: findMetadataEntry_def isDirectory_nest endsWith_def)
qed

lemma scan_unbounded:
  "findFilesRecursively env p (Some (nest n leafDir)) acc =
     acc @ [join env (nestPath env p n) ''x.parquet'']"
proof (induction n arbitrary: p acc)
  case 0
  show ?case by (simp add: leafDir_def findMetadataEntry_def endsWith_def)
next
  case (Suc n)
  then show ?case by (simp add: findMetadataEntry_def isDirectory_nest endsWith_def)
qed

lemma cut_kind [simp]: "isFile (cut k x) = isFile x" "isDirectory (cut k x) = isDirectory x"
  by (cases x; cases k; simp)+

lemma cut_content [simp]:
  "isFile x \<Longrightarrow> cut k x = x"
  by (cases x) simp_all

lemma cut_Dir: "cut k (Dir entries) = Dir (map (cutEntry k) entries)"
  by (cases k) (auto simp: cutEntry_def split: prod.splits)

lemma cutEntry_simps [simp]:
  "fst (cutEntry k entry) = fst entry"
  "isFile (snd (cutEntry k entry)) = isFile (snd entry)"
  "isDirectory (snd (cutEntry k entry)) = isDirectory (snd entry)"
  "isFile (snd entry) \<Longrightarrow> snd (cutEntry k entry) = snd entry"
  by (cases "snd entry"; simp add: cutEntry_def split: nat.splits)+

lemma cutEntry_below:
  assumes "level < 10"
  shows "snd (cutEntry (10 - level) entry) = cut (10 - (level + 1)) (snd entry)"
proof -
  from assms have "10 - level = Suc (10 - (level + 1))" by simp
  then show ?thesis by (simp add: cutEntry_def)
qed

lemma findFilesEntries_step:
  "findFilesEntries env basePath dirPath (entry # rest) level found =
     findFilesEntries env basePath dirPath rest level
       (entryStep env basePath dirPath level (fst entry) (snd entry) found)"
  by (cases entry) (simp add: entryStep_def)

lemma entryStep_cut:
  assumes "level \<le> 10"
    and "\<And>p l f. l \<le> 10 \<Longrightarrow>
           findFiles env basePath p (Some (cut (10 - l) (snd entry))) l f =
           findFiles env basePath p (Some (snd entry)) l f"
  shows "entryStep env basePath dirPath level (fst entry) (snd (cutEntry (10 - level) entry)) found
         = entryStep env basePath dirPath level (fst entry) (snd entry) found"
proof (cases "isFile (snd entry)")
  case True
  then show ?thesis by simp
next
  case False
  show ?thesis
  proof (cases "level < 10")
    case True
    then have "level + 1 \<le> 10" by simp
    from assms(2) [OF this] True False show ?thesis
      by (simp add: entryStep_def cutEntry_below Let_def)
  next
    case False
    with \<open>\<not> isFile (snd entry)\<close> show ?thesis
      by (simp add: entryStep_def Let_def)
  qed
qed

lemma findFilesEntries_cut:
  assumes "level \<le> 10"
    and "\<And>entry p l f. entry \<in> set entries \<Longrightarrow> l \<le> 10 \<Longrightarrow>
           findFiles env basePath p (Some (cut (10 - l) (snd entry))) l f =
           findFiles env basePath p (Some (snd entry)) l f"
  shows "findFilesEntries env basePath dirPath (map (cutEntry (10 - level)) entries) level found =
         findFilesEntries env basePath dirPath entries level found"
  using assms(2)
proof (induction entries arbitrary: found)
  case Nil
  show ?case by simp
next
  case (Cons entry rest)
  have "entryStep env basePath dirPath level (fst entry) (snd (cutEntry (10 - level) entry)) found
      = entryStep env basePath dirPath level (fst entry) (snd entry) found"
    by (rule entryStep_cut [OF assms(1)]) (simp add: Cons.prems)
  moreover have "findFilesEntries env basePath dirPath (map (cutEntry (10 - level)) rest) level f =
      findFilesEntries env basePath dirPath rest level f" for f
    by (rule Cons.IH) (simp add: Cons.prems)
  ultimately show ?case
    by (simp add: findFilesEntries_step)
qed

lemma findFiles_cut:
  "level \<le> 10 \<Longrightarrow>
     findFiles env basePath dirPath (Some (cut (10 - level) x)) level found =
     findFiles env basePath dirPath (Some x) level found"
proof (induction x arbitrary: dirPath level found)
  case (File c)
  show ?case by simp
next
  case Locked
  show ?case by simp
next
  case (Dir entries)
  have "findFilesEntries env basePath dirPath (map (cutEntry (10 - level)) entries) level found =
        findFilesEntries env basePath dirPath entries level found"
  proof (rule findFilesEntries_cut [OF Dir.prems])
    fix entry p l f
    assume member: "entry \<in> set entries" and bound: "l \<le> (10::nat)"
    have child: "snd entry \<in> Basic_BNFs.snds entry"
      by (cases entry) (simp add: prod_set_simps)
    show "findFiles env basePath p (Some (cut (10 - l) (snd entry))) l f =
               findFiles env basePath p (Some (snd entry)) l f"
      by (rule Dir.IH [OF member child bound])
  qed
  then show ?case by (simp add: cut_Dir)
qed

lemma levels_entry:
  "entry \<in> set entries \<Longrightarrow> levels (snd entry) \<le> maximum (map (\<lambda>(name, x). levels x) entries)"
  by (induction entries) (auto simp: case_prod_unfold)

lemma levels_directory: "isDirectory x \<Longrightarrow> 0 < levels x"
  by (cases x) simp_all

lemma metadataSubdirsWithin_returns:
  assumes "\<And>entry p acc. entry \<in> set entries \<Longrightarrow> isDirectory (snd entry) \<Longrightarrow>
             findMetadataFilesRecursivelyWithin budget env p (Some (snd entry)) acc s e =
             Some (findMetadataFilesRecursively env p (Some (snd entry)) acc s e)"
  shows "metadataSubdirsWithin budget env dirPath entries acc s e =
         Some (metadataSubdirs env dirPath entries acc s e)"
  using assms
proof (induction entries arbitrary: acc)
  case Nil
  show ?case by simp
next
  case (Cons entry rest)
  obtain name x where entry: "entry = (name, x)" by (cases entry)
  have rest: "metadataSubdirsWithin budget env dirPath rest a s e =
      Some (metadataSubdirs env dirPath rest a s e)" for a
    by (rule Cons.IH) (simp add: Cons.prems)
  show ?case
  proof (cases "isDirectory x")
    case True
    with Cons.prems [of entry "join env dirPath name" acc] entry
    show ?thesis by (simp add: rest)
  next
    case False
    then show ?thesis by (simp add: entry rest)
  qed
qed

lemma findMetadataFilesRecursivelyWithin_returns:
  "0 < budget \<Longrightarrow> levels x \<le> budget \<Longrightarrow>
     findMetadataFilesRecursivelyWithin budget env dirPath (Some x) acc s e =
     Some (findMetadataFilesRecursively env dirPath (Some x) acc s e)"
proof (induction x arbitrary: budget dirPath acc)
  case (File c)
  then obtain b where "budget = Suc b" by (cases budget) simp_all
  then show ?case by simp
next
  case Locked
  then obtain b where "budget = Suc b" by (cases budget) simp_all
  then show ?case by simp
next
  case (Dir entries)
  from Dir.prems obtain b where budget: "budget = Suc b" by (cases budget) simp_all
  have subdirs: "metadataSubdirsWithin b env dirPath entries a s e =
      Some (metadataSubdirs env dirPath entries a s e)" for a
  proof (rule metadataSubdirsWithin_returns)
    fix entry p acc
    assume member: "entry \<in> set entries" and directory: "isDirectory (snd entry)"
    have child: "snd entry \<in> Basic_BNFs.snds entry"
      by (cases entry) (simp add: prod_set_simps)
    from levels_entry [OF member] Dir.prems budget have fits: "levels (snd entry) \<le> b"
      by simp
    with levels_directory [OF directory] have left: "0 < b" by simp
    show "findMetadataFilesRecursivelyWithin b env p (Some (snd entry)) acc s e =
          Some (findMetadataFilesRecursively env p (Some (snd entry)) acc s e)"
      by (rule Dir.IH [OF member child left fits])
  qed
  show ?case
    by (simp add: budget subdirs split: option.splits prod.splits fsobj.splits content.splits)
qed

lemma allSubdirsWithin_returns:
  assumes "\<And>entry p acc. entry \<in> set entries \<Longrightarrow> isDirectory (snd entry) \<Longrightarrow>
             findFilesRecursivelyWithin budget env p (Some (snd entry)) acc =
             Some (findFilesRecursively env p (Some (snd entry)) acc)"
  shows "allSubdirsWithin budget env dirPath entries acc =
         Some (allSubdirs env dirPath entries acc)"
  using assms
proof (induction entries arbitrary: acc)
  case Nil
  show ?case by simp
next
  case (Cons entry rest)
  obtain name x where entry: "entry = (name, x)" by (cases entry)
  have rest: "allSubdirsWithin budget env dirPath rest a = Some (allSubdirs env dirPath rest a)"
    for a
    by (rule Cons.IH) (simp add: Cons.prems)
  show ?case
  proof (cases "isDirectory x")
    case True
    with Cons.prems [of entry "join env dirPath name" acc] entry
    show ?thesis by (simp add: rest)
  next
    case False
    then show ?thesis by (simp add: entry rest)
  qed
qed

lemma findFilesRecursivelyWithin_returns:
  "0 < budget \<Longrightarrow> levels x \<le> budget \<Longrightarrow>
     findFilesRecursivelyWithin budget env dirPath (Some x) acc =
     Some (findFilesRecursively env dirPath (Some x) acc)"
proof (induction x arbitrary: budget dirPath acc)
  case (File c)
  then obtain b where "budget = Suc b" by (cases budget) simp_all
  then show ?case by simp
next
  case Locked
  then obtain b where "budget = Suc b" by (cases budget) simp_all
  then show ?case by simp
next
  case (Dir entries)
  from Dir.prems obtain b where budget: "budget = Suc b" by (cases budget) simp_all
  have subdirs: "allSubdirsWithin b env dirPath entries a = Some (allSubdirs env dirPath entries a)"
    for a
  proof (rule allSubdirsWithin_returns)
    fix entry p acc
    assume member: "entry \<in> set entries" and directory: "isDirectory (snd entry)"
    have child: "snd entry \<in> Basic_BNFs.snds entry"
      by (cases entry) (simp add: prod_set_simps)
    from levels_entry [OF member] Dir.prems budget have fits: "levels (snd entry) \<le> b"
      by simp
    with levels_directory [OF directory] have left: "0 < b" by simp
    show "findFilesRecursivelyWithin b env p (Some (snd entry)) acc =
          Some (findFilesRecursively env p (Some (snd entry)) acc)"
      by (rule Dir.IH [OF member child left fits])
  qed
  show ?case
    by (simp add: budget subdirs)
qed

lemma levels_nest: "levels (nest n leafDir) = Suc n"
  by (induction n) (simp_all add: leafDir_def)

lemma fallback_budget:
  "budget \<le> n \<Longrightarrow>
     findMetadataFilesRecursivelyWithin budget env p (Some (nest n leafDir)) acc s e = None"
proof (induction n arbitrary: budget p acc)
  case 0
  then show ?case by simp
next
  case (Suc n)
  show ?case
  proof (cases budget)
    case 0
    then show ?thesis by simp
  next
    case (Suc b)
    with Suc.prems have "b \<le> n" by simp
    from Suc.IH [OF this] Suc show ?thesis
      by (simp add: findMetadataEntry_def isDirectory_nest)
  qed
qed

lemma scan_budget:
  "budget \<le> n \<Longrightarrow>
     findFilesRecursivelyWithin budget env p (Some (nest n leafDir)) acc = None"
proof (induction n arbitrary: budget p acc)
  case 0
  then show ?case by simp
next
  case (Suc n)
  show ?case
  proof (cases budget)
    case 0
    then show ?thesis by simp
  next
    case (Suc b)
    with Suc.prems have "b \<le> n" by simp
    from Suc.IH [OF this] Suc show ?thesis
      by (simp add: findMetadataEntry_def isDirectory_nest)
  qed
qed

text \<open>
  C7 as stated does not hold: neither recursive resolver carries a depth.  A \<open>.parquet\<close>
  file in a directory twelve levels below the root is returned by
  \<open>_findMetadataFilesRecursively\<close> and by \<open>_findFilesRecursively\<close>, so that directory was
  listed.
\<close>

theorem walk_depth_counterexample:
  "findMetadataFilesRecursively demo ''r'' (Some (nest 12 leafDir)) [] (Some (Num s0)) (Some (Num e0))
     = [''r/d/d/d/d/d/d/d/d/d/d/d/d/x.parquet'']
   \<and> findFilesRecursively demo ''r'' (Some (nest 12 leafDir)) []
     = [''r/d/d/d/d/d/d/d/d/d/d/d/d/x.parquet'']"
  by code_simp

text \<open>
  C7, amended.  The recursive resolvers have no bound on depth.  For every \<open>n\<close>, the
  \<open>.parquet\<close> file under \<open>n\<close> nested directories is returned by
  \<open>_findMetadataFilesRecursively\<close> and by \<open>_findFilesRecursively\<close>, and a budget of \<open>n\<close>
  nested calls or fewer does not let either walk finish on that tree.  On every directory
  tree both walks return: a budget of as many nested calls as the tree has levels of
  directories lets them finish, with their result.  The bound of 10 levels belongs to
  \<open>findFiles\<close> of the debug endpoint alone: started at level 0, its result is the same
  when every directory more than 10 levels below the measurement root is emptied.
\<close>

theorem walk_depth:
  "findMetadataFilesRecursively env p (Some (nest n leafDir)) [] s e =
     [join env (nestPath env p n) ''x.parquet'']
   \<and> findFilesRecursively env p (Some (nest n leafDir)) [] =
     [join env (nestPath env p n) ''x.parquet'']
   \<and> (budget \<le> n \<longrightarrow>
        findMetadataFilesRecursivelyWithin budget env p (Some (nest n leafDir)) [] s e = None \<and>
        findFilesRecursivelyWithin budget env p (Some (nest n leafDir)) [] = None)
   \<and> (0 < budget \<and> levels x \<le> budget \<longrightarrow>
        findMetadataFilesRecursivelyWithin budget env p (Some x) acc s e =
          Some (findMetadataFilesRecursively env p (Some x) acc s e) \<and>
        findFilesRecursivelyWithin budget env p (Some x) acc =
          Some (findFilesRecursively env p (Some x) acc))
   \<and> findFiles env basePath basePath (Some x) 0 ([], []) =
     findFiles env basePath basePath (Some (cut 10 x)) 0 ([], [])"
  using findFiles_cut [of 0 env basePath basePath x "([], [])"]
  by (simp add: fallback_unbounded scan_unbounded fallback_budget scan_budget
      findMetadataFilesRecursivelyWithin_returns findFilesRecursivelyWithin_returns)

theorem walk_depth_witness:
  "findMetadataFilesRecursively demo ''r'' (Some (nest 11 leafDir)) [] None None =
     [''r/d/d/d/d/d/d/d/d/d/d/d/x.parquet'']
   \<and> findMetadataFilesRecursivelyWithin 11 demo ''r'' (Some (nest 11 leafDir)) [] None None = None
   \<and> findMetadataFilesRecursivelyWithin 12 demo ''r'' (Some (nest 11 leafDir)) [] None None =
     Some [''r/d/d/d/d/d/d/d/d/d/d/d/x.parquet'']
   \<and> findFilesRecursivelyWithin 12 demo ''r'' (Some (nest 11 leafDir)) [] =
     Some [''r/d/d/d/d/d/d/d/d/d/d/d/x.parquet'']
   \<and> findFiles demo ''r'' ''r'' (Some (nest 11 leafDir)) 0 ([], []) = ([], [])
   \<and> fst (findFiles demo ''r'' ''r'' (Some (nest 10 leafDir)) 0 ([], [])) =
     [\<lparr>pq_path = ''r/d/d/d/d/d/d/d/d/d/d/x.parquet'', pq_name = ''x.parquet'',
       pq_relativePath = ''d/d/d/d/d/d/d/d/d/d/x.parquet''\<rparr>]"
proof -
  have path: "join demo (nestPath demo ''r'' 11) ''x.parquet'' =
      ''r/d/d/d/d/d/d/d/d/d/d/d/x.parquet''"
    by code_simp
  have high: "levels (nest 11 leafDir) \<le> 12"
    by code_simp
  have emptied: "findFiles demo ''r'' ''r'' (Some (cut 10 (nest 11 leafDir))) 0 ([], []) = ([], [])"
    by code_simp
  have kept: "fst (findFiles demo ''r'' ''r'' (Some (cut 10 (nest 10 leafDir))) 0 ([], [])) =
     [\<lparr>pq_path = ''r/d/d/d/d/d/d/d/d/d/d/x.parquet'', pq_name = ''x.parquet'',
       pq_relativePath = ''d/d/d/d/d/d/d/d/d/d/x.parquet''\<rparr>]"
    by code_simp
  show ?thesis
    using walk_depth [where env = demo and p = "''r''" and n = 11 and s = None and e = None
        and budget = 11 and x = "nest 11 leafDir" and acc = "[]" and basePath = "''r''"]
      walk_depth [where env = demo and p = "''r''" and n = 11 and s = None and e = None
        and budget = 12 and x = "nest 11 leafDir" and acc = "[]" and basePath = "''r''"]
      walk_depth [where env = demo and p = "''r''" and n = 11 and s = None and e = None
        and budget = 12 and x = "nest 10 leafDir" and acc = "[]" and basePath = "''r''"]
      path high emptied kept
    by simp
qed

subsection \<open>The time-range extractor\<close>

text \<open>The defaults of \<open>_extractTimeRange\<close>, case by case.\<close>

lemma applyDefaults_cases:
  "applyDefaults env sc =
     (if \<not> userSpecifiedTimeCondition sc then \<lparr>start = None, end = None, timeCondition = None\<rparr>
      else \<lparr>start = (if \<not> truthy (scanStart sc) \<and> truthy (scanEnd sc) then Some (Num 0)
                     else scanStart sc),
            end = (if truthy (scanStart sc) \<and> \<not> truthy (scanEnd sc)
                   then Some (times1e6 (Num (now env))) else scanEnd sc),
            timeCondition = scanCondition sc\<rparr>)"
  by (simp add: applyDefaults_def)

text \<open>
  C4 at its failing inputs.  A statement whose only time predicate is
  \<open>time >= '1970-01-01T00:00:00Z'\<close> yields start \<open>0\<close> and end \<open>null\<close>: the test
  \<open>start && !end\<close> takes the start \<open>0\<close> for a missing one, and end is not set to the
  current instant.  In the same way an only end bound at the epoch leaves start \<open>null\<close>,
  and a start that does not parse as a date (\<open>NaN\<close>) leaves end \<open>null\<close>.
\<close>

theorem defaults_miss_epoch:
  "extractTimeRange1 demo sqlEpoch =
     \<lparr>start = Some (Num 0), end = None, timeCondition = Some whereEpoch\<rparr>
   \<and> extractTimeRange demo sqlEpoch whereEpoch =
     \<lparr>start = Some (Num 0), end = None, timeCondition = Some whereEpoch\<rparr>
   \<and> start (extractTimeRange1 demo sqlUntilEpoch) = None
   \<and> end (extractTimeRange1 demo sqlUntilEpoch) = Some (Num 0)
   \<and> start (extractTimeRange1 demo sqlTypo) = Some NaN
   \<and> end (extractTimeRange1 demo sqlTypo) = None"
  by code_simp

text \<open>The state after the pattern matching of \<open>_extractTimeRange\<close>, case by case.\<close>

lemma matchTimePatterns_cases:
  "(exec timePattern3 w = Some betweenMatch \<longrightarrow>
      matchTimePatterns env w =
        \<lparr>scanStart = nsOf env (group betweenMatch 1), scanEnd = nsOf env (group betweenMatch 2),
         scanCondition = Some (''time BETWEEN '' @ quote @ group betweenMatch 1 @ quote @
                               '' AND '' @ quote @ group betweenMatch 2 @ quote),
         userSpecifiedTimeCondition = True\<rparr>)
   \<and> (exec timePattern3 w = None \<longrightarrow>
      (case exec timePattern2 w of
         Some equalMatch \<Rightarrow>
           scanStart (matchTimePatterns env w) = nsOf env (group equalMatch 1) \<and>
           scanEnd (matchTimePatterns env w) = nsOf env (group equalMatch 1)
       | None \<Rightarrow>
           scanStart (matchTimePatterns env w) =
             (case exec timePattern0 w of None \<Rightarrow> None
              | Some startMatch \<Rightarrow> nsOf env (group startMatch 2)) \<and>
           scanEnd (matchTimePatterns env w) =
             (case exec timePattern1 w of None \<Rightarrow> None
              | Some endMatch \<Rightarrow> nsOf env (group endMatch 2)))
      \<and> userSpecifiedTimeCondition (matchTimePatterns env w) =
          (exec timePattern0 w \<noteq> None \<or> exec timePattern1 w \<noteq> None \<or>
           exec timePattern2 w \<noteq> None))"
  by (auto simp: matchTimePatterns_def Let_def split: option.splits)

text \<open>
  C5 at its failing input.  On \<open>time BETWEEN '1969-12-31T00:00:00Z' AND
  '1970-01-01T00:00:00Z'\<close> the \<open>BETWEEN\<close> pattern matches and end is read from the second
  instant, \<open>0\<close>; the extractor then returns as end the current instant, not \<open>0\<close>: the
  test \<open>start && !end\<close> of the defaults takes the end \<open>0\<close> for a missing one.  The same
  happens to an end at the epoch that a \<open><=\<close> comparison sets, and a first instant that
  does not parse as a date gives the start \<open>0\<close>, not \<open>NaN\<close>.  On the other texts the
  returned bounds are those the claim gives: from the \<open>BETWEEN\<close> match and not from the
  \<open>>\<close> comparison beside it; from a \<open>>\<close> and a \<open><=\<close> comparison; from an \<open>=\<close>
  comparison, which overrides both.
\<close>

theorem between_end_at_epoch:
  "extractTimeRange1 demo sqlBetweenEpoch =
     \<lparr>start = Some (Num (- 86400000000000)), end = Some (Num 1762128000000000000),
      timeCondition = Some whereBetweenEpoch\<rparr>
   \<and> extractTimeRange demo sqlBetweenEpoch whereBetweenEpoch =
     \<lparr>start = Some (Num (- 86400000000000)), end = Some (Num 1762128000000000000),
      timeCondition = Some whereBetweenEpoch\<rparr>
   \<and> nsOf demo ''1969-12-31T00:00:00Z'' = Some (Num (- 86400000000000))
   \<and> nsOf demo ''1970-01-01T00:00:00Z'' = Some (Num 0)
   \<and> times1e6 (Num (now demo)) = Num 1762128000000000000
   \<and> end (extractTimeRange1 demo whereAfterUntilEpoch) = Some (Num 1762128000000000000)
   \<and> nsOf demo ''yesterday'' = Some NaN
   \<and> start (extractTimeRange1 demo whereBetweenTypo) = Some (Num 0)
   \<and> start (extractTimeRange1 demo whereBoth) = Some (Num 1744293600000000000)
   \<and> end (extractTimeRange1 demo whereBoth) = Some (Num 1744297200000000000)
   \<and> start (extractTimeRange1 demo whereThree) = Some (Num 1744293600000000000)
   \<and> end (extractTimeRange1 demo whereThree) = Some (Num 1744362000000000000)
   \<and> start (extractTimeRange1 demo whereEq) = Some (Num 1744297200000000000)
   \<and> end (extractTimeRange1 demo whereEq) = Some (Num 1744297200000000000)"
  by code_simp

subsection \<open>The query\<close>

text \<open>
  C8.  With the client initialized and the statement parsed, an empty resolved file set
  makes \<open>query\<close> return the empty array, as a result and not as an error, and no
  statement reaches the engine.
\<close>

theorem empty_file_set_short_circuit:
  assumes "connection eng" and "parseQuery sql db = Inr parsed"
    and "findRelevantFiles env (dbName parsed) (measurement parsed) (timeRange parsed) = []"
  shows "query env eng sql db = (Inr [], [])"
  using assms by (simp add: query_def executeOn_def)

theorem empty_file_set_short_circuit_witness:
  "query demo engine0 sqlNothing ''mydb'' = (Inr [], [])"
proof -
  have conn: "connection engine0"
    by code_simp
  have parsed: "parseQuery sqlNothing ''mydb'' =
      Inr \<lparr>columns = ''*'', dbName = ''mydb'', measurement = ''nothing'',
           timeRange = \<lparr>start = None, end = None, timeCondition = None\<rparr>,
           whereConditions = [], orderBy = [], groupBy = [], having = [], limit = None\<rparr>"
    by code_simp
  have nofiles: "findRelevantFiles demo ''mydb'' ''nothing''
      \<lparr>start = None, end = None, timeCondition = None\<rparr> = []"
    by code_simp
  show ?thesis
    using empty_file_set_short_circuit [OF conn parsed, of demo] nofiles by simp
qed

lemma parseQuery_Inr:
  assumes "parseQuery sql db = Inr parsed"
  shows "timeRange parsed = \<lparr>start = None, end = None, timeCondition = None\<rparr>"
proof (cases "exec fromRe (trim (collapse False sql))")
  case None
  with assms show ?thesis by (simp add: parseQuery_def Let_def)
next
  case (Some fm)
  with assms show ?thesis by (auto simp: parseQuery_def Let_def)
qed

lemma parseQuery_Inl:
  assumes "parseQuery sql db = Inl err"
  shows "err = InvalidQuery \<and> exec fromRe (trim (collapse False sql)) = None"
proof (cases "exec fromRe (trim (collapse False sql))")
  case None
  with assms show ?thesis by (simp add: parseQuery_def Let_def)
next
  case (Some fm)
  with assms show ?thesis by (simp add: parseQuery_def Let_def)
qed

lemma parseQuery_total:
  assumes "exec fromRe (trim (collapse False sql)) \<noteq> None"
  shows "\<exists>descriptor. parseQuery sql db = Inr descriptor"
proof -
  from assms obtain fm where "exec fromRe (trim (collapse False sql)) = Some fm" by auto
  then show ?thesis by (simp add: parseQuery_def Let_def)
qed

lemma findRelevantFiles_null:
  "start tr = None \<Longrightarrow> end tr = None \<Longrightarrow> findRelevantFiles env d m tr = findAllFiles env d m"
  by (simp add: findRelevantFiles_def)

text \<open>
  C10.  Every descriptor that \<open>parseQuery\<close> of the later class returns has a time range
  with start, end and time condition \<open>null\<close>, so that \<open>findRelevantFiles\<close> is the
  all-files scan and \<open>query\<close> runs on the files of that scan, whatever time predicate the
  statement holds.  \<open>parseQuery\<close> returns a descriptor exactly when the \<open>FROM\<close> pattern
  matches; otherwise it throws the invalid-query error.
\<close>

theorem parseQuery_time_range_null:
  "(parseQuery sql db = Inr parsed \<longrightarrow>
      timeRange parsed = \<lparr>start = None, end = None, timeCondition = None\<rparr>
      \<and> findRelevantFiles env (dbName parsed) (measurement parsed) (timeRange parsed) =
          findAllFiles env (dbName parsed) (measurement parsed)
      \<and> (connection eng \<longrightarrow>
          query env eng sql db =
            executeOn eng sql parsed (findAllFiles env (dbName parsed) (measurement parsed))))
   \<and> (parseQuery sql db = Inl err \<longrightarrow>
      err = InvalidQuery \<and> exec fromRe (trim (collapse False sql)) = None)
   \<and> (exec fromRe (trim (collapse False sql)) \<noteq> None \<longrightarrow>
      (\<exists>descriptor. parseQuery sql db = Inr descriptor))"
proof (intro conjI impI)
  assume ok: "parseQuery sql db = Inr parsed"
  then show null: "timeRange parsed = \<lparr>start = None, end = None, timeCondition = None\<rparr>"
    by (rule parseQuery_Inr)
  then show scan: "findRelevantFiles env (dbName parsed) (measurement parsed) (timeRange parsed) =
      findAllFiles env (dbName parsed) (measurement parsed)"
    by (simp add: findRelevantFiles_null)
  assume "connection eng"
  with ok scan show "query env eng sql db =
      executeOn eng sql parsed (findAllFiles env (dbName parsed) (measurement parsed))"
    by (simp add: query_def)
next
  assume "parseQuery sql db = Inl err"
  then show "err = InvalidQuery" "exec fromRe (trim (collapse False sql)) = None"
    using parseQuery_Inl by blast+
next
  assume "exec fromRe (trim (collapse False sql)) \<noteq> None"
  then show "\<exists>descriptor. parseQuery sql db = Inr descriptor"
    by (rule parseQuery_total)
qed

theorem parseQuery_time_range_null_witness:
  "query demo engine0 sqlSince ''mydb'' =
     (Inr rows0, [statementOf parsedSince allWeather])
   \<and> parseQuery ''select 1'' ''mydb'' = Inl InvalidQuery"
proof -
  have parsed: "parseQuery sqlSince ''mydb'' = Inr parsedSince"
    by code_simp
  have failed: "parseQuery ''select 1'' ''mydb'' = Inl InvalidQuery"
    by code_simp
  have found: "exec fromRe (trim (collapse False sqlSince)) \<noteq> None"
    by code_simp
  have conn: "connection engine0"
    by code_simp
  have scan: "findAllFiles demo (dbName parsedSince) (measurement parsedSince) = allWeather"
    by code_simp
  have run: "executeOn engine0 sqlSince parsedSince allWeather =
      (Inr rows0, [statementOf parsedSince allWeather])"
    by code_simp
  show ?thesis
    using parseQuery_time_range_null [of sqlSince "''mydb''" parsedSince demo engine0 InvalidQuery]
      parseQuery_time_range_null [of "''select 1''" "''mydb''" parsedSince demo engine0 InvalidQuery]
      parsed failed found conn scan run
    by simp
qed

subsection \<open>Normalization\<close>

lemma assign_fresh: "key \<notin> set (map fst props) \<Longrightarrow> assign props key x = props @ [(key, x)]"
  by (induction props) auto

lemma fixEntries_map:
  "distinct (map fst fixedRow @ map fst entries) \<Longrightarrow>
     fixEntries toStr entries fixedRow =
       fixedRow @ map (\<lambda>(key, v). (key, fixValue toStr key v)) entries"
proof (induction entries arbitrary: fixedRow)
  case Nil
  show ?case by simp
next
  case (Cons entry entries)
  obtain key v where entry: "entry = (key, v)" by (cases entry)
  from Cons.prems entry have fresh: "key \<notin> set (map fst fixedRow)" by auto
  from Cons.prems entry
  have "distinct (map fst (fixedRow @ [(key, fixValue toStr key v)]) @ map fst entries)"
    by auto
  from Cons.IH [OF this] fresh entry show ?case
    by (simp add: assign_fresh)
qed

lemma fixRow_map:
  "distinct (map fst r) \<Longrightarrow> fixRow toStr r = map (\<lambda>(key, v). (key, fixValue toStr key v)) r"
  by (simp add: fixRow_def fixEntries_map)

lemma fixValue_normalized:
  "\<not> isBigInt v \<Longrightarrow> \<not> (stringIncludes key ''count'' \<and> v = Null) \<Longrightarrow> \<not> isCharBuffer v \<Longrightarrow>
     fixValue toStr key v = v"
  by (cases v) (auto simp: fixValue_def)

lemma fixValue_idem: "fixValue toStr key (fixValue toStr key v) = fixValue toStr key v"
  by (cases v) (auto simp: fixValue_def)

text \<open>
  C9.  The normalization step of \<open>/query\<close> returns a row unchanged when no column holds
  a BigInt, no column with \<open>count\<close> in its name holds \<open>null\<close>, and no column holds an
  object with the keys \<open>0\<close> and \<open>ptr\<close>; and applying the step twice is the same as
  applying it once.  The keys of a row are distinct, as those of an object are.
\<close>

theorem normalization_noop:
  assumes "distinct (map fst r)"
  shows "(normalized r \<longrightarrow> fixRow toStr r = r)
       \<and> fixRow toStr (fixRow toStr r) = fixRow toStr r"
proof
  show "normalized r \<longrightarrow> fixRow toStr r = r"
  proof
    assume "normalized r"
    then have "map (\<lambda>(key, v). (key, fixValue toStr key v)) r = r"
      by (induction r) (auto simp: normalized_def fixValue_normalized)
    with assms show "fixRow toStr r = r" by (simp add: fixRow_map)
  qed
next
  let ?f = "\<lambda>(key, v). (key, fixValue toStr key v)"
  have keys: "map fst (map ?f r) = map fst r"
    by (induction r) auto
  have twice: "map ?f (map ?f r) = map ?f r"
    by (induction r) (auto simp: fixValue_idem)
  from assms have once: "fixRow toStr r = map ?f r"
    by (rule fixRow_map)
  have "distinct (map fst (map ?f r))"
    unfolding keys by (rule assms)
  then have "fixRow toStr (map ?f r) = map ?f (map ?f r)"
    by (rule fixRow_map)
  with once twice show "fixRow toStr (fixRow toStr r) = fixRow toStr r"
    by simp
qed

theorem normalization_noop_witness:
  "fixRow toStr0 fixedRow0 = fixedRow0
   \<and> fixRow toStr0 rawRow0 = fixedRow0
   \<and> fixRow toStr0 (fixRow toStr0 rawRow0) = fixRow toStr0 rawRow0"
proof -
  have keys: "distinct (map fst fixedRow0)" "distinct (map fst rawRow0)"
    by code_simp+
  have clean: "normalized fixedRow0"
    by code_simp
  have decimal: "showInt 1744293600000000000 = ''1744293600000000000''"
    by (simp add: showInt_def showNat.simps digitChar_def)
  have columns: "\<not> stringIncludes ''time'' ''count''"
    "fixValue toStr0 ''count_star'' Null = NumV (Num 0)"
    "fixValue toStr0 ''location'' (ObjV [(''0'', StrV ''u''), (''1'', StrV ''s''),
       (''ptr'', NumV (Num 140))]) = StrV ''us''"
    by code_simp+
  from columns(1) decimal
  have "fixValue toStr0 ''time'' (BigIntV 1744293600000000000) = StrV ''1744293600000000000''"
    by (simp add: fixValue_def)
  with columns have raw: "fixRow toStr0 rawRow0 = fixedRow0"
    by (simp add: fixRow_def rawRow0_def fixedRow0_def)
  show ?thesis
    using normalization_noop [OF keys(1), of toStr0] normalization_noop [OF keys(2), of toStr0]
      clean raw
    by simp
qed

end
